theory Spec2Isabelle
  imports Complex_Main "HOL-Library.Log_Nat"
begin

section \<open>JSON values\<close>

text \<open>
  Every bus payload and every queue file is JSON. A number is a rational (every finite
  double is one). An object is the list of its members in document order. In the
  TypeScript source \<open>SqlEntity\<close> is a record from column names to values; an entity that
  arrives from the bus is a parsed JSON object, so it is the member list of that object.
\<close>

datatype json =
    JNull
  | JBool bool
  | JNum rat
  | JStr string
  | JArr "json list"
  | JObj "(string \<times> json) list"

type_synonym SqlEntity = "(string \<times> json) list"

section \<open>Numbers and instants\<close>

text \<open>
  JavaScript numbers are IEEE 754 doubles. A finite double is a rational, and the sum of
  two doubles is the exact sum rounded to the nearest double, to the one with the even
  mantissa when two are equally near. \<open>double x\<close> is that rounding of a rational \<open>x\<close>: a
  mantissa of 53 bits above the exponent \<open>-1022\<close>, a fixed step of \<open>2^-1074\<close> below.
  The only sums of this program add a finite interval and a constant to the clock or to a
  time value; such a sum cannot round to infinity, which is therefore not modelled. JSON
  number literals beyond the range of the doubles, which \<open>JSON.parse\<close> reads as
  infinite, are not part of the model either.
\<close>

definition pow2 :: "int \<Rightarrow> rat" where
  "pow2 k = (if 0 \<le> k then 2 ^ nat k else 1 / 2 ^ nat (- k))"

text \<open>The exponent \<open>e\<close> of a positive rational: \<open>2^e \<le> a < 2^(e + 1)\<close>.\<close>

definition exponent :: "rat \<Rightarrow> int" where
  "exponent a = (if 1 \<le> a then bitlen \<lfloor>a\<rfloor> - 1 else - bitlen (\<lceil>1 / a\<rceil> - 1))"

definition roundEven :: "rat \<Rightarrow> int" where
  "roundEven m =
     (let f = \<lfloor>m\<rfloor>; r = m - of_int f
      in if r < 1 / 2 then f
         else if r > 1 / 2 then f + 1
         else if even f then f else f + 1)"

definition double :: "rat \<Rightarrow> rat" where
  "double x =
     (if x = 0 then 0
      else (let ulp = pow2 (max (exponent \<bar>x\<bar>) (- 1022) - 52)
            in sgn x * of_int (roundEven (\<bar>x\<bar> / ulp)) * ulp))"

text \<open>
  A number is a finite double or \<open>NaN\<close>, the only other number that the modelled methods
  produce. A sum with \<open>NaN\<close> is \<open>NaN\<close>, a comparison with \<open>NaN\<close> is false, and
  \<open>JSON.stringify\<close> writes \<open>NaN\<close> as \<open>null\<close>.
\<close>

datatype number = Num rat | NaN

fun addNumber :: "number \<Rightarrow> rat \<Rightarrow> number" where
  "addNumber (Num a) b = Num (double (a + b))"
| "addNumber NaN b = NaN"

fun numberJson :: "number \<Rightarrow> json" where
  "numberJson (Num a) = JNum a"
| "numberJson NaN = JNull"

text \<open>
  \<open>new Date(v).getTime()\<close> for a finite number \<open>v\<close>: the time value is clipped, \<open>NaN\<close>
  beyond 8.64e15 milliseconds from the epoch, and otherwise \<open>v\<close> truncated towards zero.
\<close>

definition getTime :: "rat \<Rightarrow> number" where
  "getTime v =
     (if \<bar>v\<bar> > 8640000000000000 then NaN
      else Num (of_int (if 0 \<le> v then \<lfloor>v\<rfloor> else \<lceil>v\<rceil>)))"

section \<open>Objects used as dictionaries\<close>

text \<open>
  \<open>connectedClients\<close> and \<open>remoteClientQueues\<close> are plain objects keyed by peer names
  that arrive on the bus. Such an object inherits from \<open>Object.prototype\<close>, and the
  source asks \<open>object.hasOwnProperty(key)\<close>: the method is looked up on the object
  itself, so once the object has an own member named \<open>hasOwnProperty\<close> (a number or a
  queue, not a function) every call throws a \<open>TypeError\<close>. The name \<open>__proto__\<close> is an
  accessor of the prototype: assigning a number to it stores nothing, assigning a queue
  makes the queue the prototype of the object (and reading \<open>__proto__\<close> then gives that
  queue); in both cases the object gets no own member, and \<open>hasOwnProperty\<close> is still
  found.

  \<open>hasOwnProperty\<close> of the object called \<open>name\<close> whose own members are \<open>own\<close>.
\<close>

definition hasOwnProperty :: "string \<Rightarrow> (string \<Rightarrow> bool) \<Rightarrow> string \<Rightarrow> string + bool" where
  "hasOwnProperty name own k =
     (if own ''hasOwnProperty''
      then Inl (name @ ''.hasOwnProperty is not a function'')
      else Inr (k \<noteq> ''__proto__'' \<and> own k))"

text \<open>\<open>object[k] = v\<close> for a number \<open>v\<close>, \<open>delete object[k]\<close>, and \<open>object[k] = queue\<close>.\<close>

definition setNumber :: "(string \<rightharpoonup> rat) \<Rightarrow> string \<Rightarrow> rat \<Rightarrow> (string \<rightharpoonup> rat)" where
  "setNumber object k v = (if k = ''__proto__'' then object else object(k \<mapsto> v))"

definition deleteMember :: "(string \<rightharpoonup> rat) \<Rightarrow> string \<Rightarrow> (string \<rightharpoonup> rat)" where
  "deleteMember object k = (if k = ''__proto__'' then object else object(k := None))"

definition setQueue :: "string set \<Rightarrow> string \<Rightarrow> string set" where
  "setQueue object k = (if k = ''__proto__'' then object else insert k object)"

section \<open>The durable queue (class HardDiskQueue)\<close>

text \<open>
  A queue is one file holding the JSON array of its items. The state of a queue is the
  content of that file, \<open>None\<close> while the file does not exist. \<open>JSON.parse\<close> of what
  \<open>JSON.stringify\<close> wrote is taken to be the same list of items.

  \<^verbatim>\<open>readQueue\<close>: the parsed file, or the empty array when there is no file.
\<close>

definition readQueue :: "'a list option \<Rightarrow> 'a list" where
  "readQueue qf = (case qf of Some queue \<Rightarrow> queue | None \<Rightarrow> [])"

text \<open>\<^verbatim>\<open>writeQueue\<close>: the file is replaced by the given array.\<close>

definition writeQueue :: "'a list \<Rightarrow> 'a list option" where
  "writeQueue queue = Some queue"

text \<open>\<^verbatim>\<open>push\<close>: read, append at the end, write.\<close>

definition push :: "'a \<Rightarrow> 'a list option \<Rightarrow> 'a list option" where
  "push entity qf = writeQueue (readQueue qf @ [entity])"

text \<open>
  \<^verbatim>\<open>poll\<close>: read; on an empty array return null without writing; otherwise take
  element 0, splice it out, write the rest and return the element.
\<close>

definition poll :: "'a list option \<Rightarrow> 'a option \<times> 'a list option" where
  "poll qf =
     (case readQueue qf of
        [] \<Rightarrow> (None, qf)
      | entity # queue \<Rightarrow> (Some entity, writeQueue queue))"

text \<open>A caller that pushes the items of a list one after the other.\<close>

fun pushAll :: "'a list \<Rightarrow> 'a list option \<Rightarrow> 'a list option" where
  "pushAll [] qf = qf"
| "pushAll (x # xs) qf = pushAll xs (push x qf)"

text \<open>A caller that polls \<open>n\<close> times and collects what each poll returned.\<close>

fun pollTimes :: "nat \<Rightarrow> 'a list option \<Rightarrow> 'a option list \<times> 'a list option" where
  "pollTimes 0 qf = ([], qf)"
| "pollTimes (Suc n) qf =
     (case poll qf of (r, qf') \<Rightarrow>
        (case pollTimes n qf' of (rs, qf'') \<Rightarrow> (r # rs, qf'')))"

section \<open>Records of the event hub (application.ts)\<close>

text \<open>
  The interfaces \<open>DatabaseChangeInfo\<close>, \<open>DatabaseChange\<close> and \<open>DatabaseChangeError\<close>.
  TypeScript declares \<open>id\<close> and \<open>date\<close> as always present, but a change is a validated
  bus payload and the change schema does not require either, so at run time both can be
  \<open>undefined\<close>: they are options, \<open>None\<close> for \<open>undefined\<close>. The field \<open>id\<close> is
  written \<open>id'\<close>. An entity of \<open>None\<close> is \<open>null\<close> (the row was deleted).
\<close>

record DatabaseChangeInfo =
  sender :: string
  table :: string
  id' :: "string option"
  date :: "rat option"

record DatabaseChange = DatabaseChangeInfo +
  entity :: "SqlEntity option"

record DatabaseChangeError = DatabaseChangeInfo +
  message :: string

datatype Status = Successful | Pending | Error

text \<open>
  The interface \<open>DatabaseStatusChange\<close>. It is built from the \<open>args\<close> of an info
  message; the schema of the \<open>error\<close> args requires no member, so \<open>table\<close>, \<open>id\<close>,
  \<open>date\<close> and \<open>message\<close> can all be \<open>undefined\<close>.
\<close>

record DatabaseStatusChange =
  st_sender :: string
  st_table :: "string option"
  st_id :: "string option"
  st_date :: "rat option"
  status :: Status
  st_message :: "string option"

text \<open>The events of \<open>ApplicationEvents\<close> that the three managers emit.\<close>

datatype event =
    LocalChange string "string option" "SqlEntity option" "string option"
  | LocalSaveChange DatabaseChange
  | LocalSaveSuccessful DatabaseChangeInfo
  | LocalSaveFailed DatabaseChangeError
  | RemoteChange DatabaseChange
  | RemoteSendChange string "string option" "SqlEntity option" string
  | RemoteStatusChange DatabaseStatusChange

section \<open>The database behind the DatabaseConnection interface\<close>

text \<open>
  The managers reach MySQL only through \<open>query\<close> and \<open>testConnection\<close>. The server is
  modelled by its state and by the effect of each statement the managers issue. The model
  starts after \<open>setupDatabase\<close>: the tables \<open>table_changes\<close> and \<open>sync_status\<close> exist.
  A user table is its primary-key columns and its rows. String comparison is exact; the
  server is in strict mode, so \<open>NULL\<close> in a \<open>NOT NULL\<close> column is an error. Rows that
  the server's own triggers add to \<open>table_changes\<close> are not produced here.

  A \<open>DATETIME\<close> value is a wall-clock time without a zone, \<open>YYYY-MM-DD HH:MM:SS\<close>. It
  is represented by the milliseconds from \<open>1970-01-01 00:00:00\<close> to that wall-clock time.
  The column \<open>date\<close> of \<open>sync_status\<close> has no fractional digits: the server reduces
  the milliseconds it is given to whole seconds (by rounding or, in old versions, by
  cutting them off), which is the field \<open>toSeconds\<close> of the database.
\<close>

record usertable =
  primary :: "string list"
  rows :: "SqlEntity list"

record TableChangeRow =
  change_id :: nat
  table_name :: string
  primary_key :: string
  change_date :: int

record StatusRow =
  row_table_name :: string
  row_primary_key :: string
  row_remote :: string
  row_date :: int
  row_status :: Status
  row_message :: "string option"

record database =
  connected :: bool
  toSeconds :: "int \<Rightarrow> int"
  tables :: "string \<rightharpoonup> usertable"
  table_changes :: "TableChangeRow list"
  sync_status :: "string \<rightharpoonup> StatusRow"

text \<open>
  The statements, one constructor for each SQL template of \<open>DatabaseManager\<close> that the
  modelled methods use, with the values bound to its placeholders:
  \<^item> \<open>ShowPrimaryColumns t\<close>: \<^verbatim>\<open>SHOW COLUMNS FROM ?? WHERE `Key` = 'PRI'\<close>
  \<^item> \<open>CountRows t c v\<close>: \<^verbatim>\<open>SELECT COUNT(*) FROM ?? WHERE ?? = ?\<close>
  \<^item> \<open>InsertRow t e\<close>: \<^verbatim>\<open>INSERT INTO ??(??) VALUE (?)\<close> with the keys and the values of \<open>e\<close>
  \<^item> \<open>UpdateRow t e c v\<close>: \<^verbatim>\<open>UPDATE ?? SET ? WHERE ?? = ?\<close>
  \<^item> \<open>DeleteRow t c v\<close>: \<^verbatim>\<open>DELETE FROM ?? WHERE ?? = ?\<close>
  \<^item> \<open>DeleteTableChanges t v\<close>:
    \<^verbatim>\<open>DELETE FROM table_changes WHERE `table_name` = ? AND primary_key = ?\<close>
  \<^item> \<open>SelectStatusDate i\<close>: \<^verbatim>\<open>SELECT `date` FROM sync_status WHERE id = ?\<close>
  \<^item> \<open>InsertStatus i t k r d s m\<close>: \<^verbatim>\<open>INSERT INTO sync_status(id, `table_name`, primary_key, remote, `date`, `status`, message) VALUE (?, ?, ?, ?, ?, ?, ?)\<close>
  \<^item> \<open>UpdateStatus d s m i\<close>:
    \<^verbatim>\<open>UPDATE sync_status SET `date` = ?, `status` = ?, message = ? WHERE id = ?\<close>

  A value of \<open>None\<close> is \<open>undefined\<close>, which \<open>sqlstring\<close> writes as \<open>NULL\<close>. A date
  is given as the \<open>DATETIME\<close> text that \<open>sqlstring\<close> writes for it (see \<open>toSqlDate\<close>).
\<close>

datatype statement =
    ShowPrimaryColumns string
  | CountRows string string "string option"
  | InsertRow string SqlEntity
  | UpdateRow string SqlEntity string "string option"
  | DeleteRow string string "string option"
  | DeleteTableChanges string "string option"
  | SelectStatusDate string
  | InsertStatus string "string option" "string option" string "int option" Status "string option"
  | UpdateStatus "int option" Status "string option" string

text \<open>
  What the driver returns: the \<open>Field\<close> of each row of \<open>SHOW COLUMNS\<close>, the
  \<open>COUNT(*)\<close> of the single row of a count, the \<open>date\<close> of each selected status row,
  or the packet of a statement that returns no rows.
\<close>

datatype result = Fields "string list" | Count nat | Dates "int list" | OkPacket

text \<open>\<open>WHERE column = value\<close> on a row; comparing with \<open>NULL\<close> selects nothing.\<close>

fun matches :: "string \<Rightarrow> string option \<Rightarrow> SqlEntity \<Rightarrow> bool" where
  "matches column None row = False"
| "matches column (Some v) row = (map_of row column = Some (JStr v))"

text \<open>\<open>SET ?\<close> with an entity: its columns are overwritten, the others are kept.\<close>

definition updateRow :: "SqlEntity \<Rightarrow> SqlEntity \<Rightarrow> SqlEntity" where
  "updateRow e row = e @ filter (\<lambda>(k, v). k \<notin> fst ` set e) row"

fun exec :: "statement \<Rightarrow> database \<Rightarrow> (result \<times> database) option" where
  "exec (ShowPrimaryColumns t) d =
     (case tables d t of
        None \<Rightarrow> None
      | Some ut \<Rightarrow> Some (Fields (primary ut), d))"
| "exec (CountRows t c v) d =
     (case tables d t of
        None \<Rightarrow> None
      | Some ut \<Rightarrow> Some (Count (length (filter (matches c v) (rows ut))), d))"
| "exec (InsertRow t e) d =
     (case tables d t of
        None \<Rightarrow> None
      | Some ut \<Rightarrow>
          Some (OkPacket, d\<lparr>tables := (tables d)(t \<mapsto> ut\<lparr>rows := rows ut @ [e]\<rparr>)\<rparr>))"
| "exec (UpdateRow t e c v) d =
     (case tables d t of
        None \<Rightarrow> None
      | Some ut \<Rightarrow>
          Some (OkPacket, d\<lparr>tables := (tables d)(t \<mapsto>
            ut\<lparr>rows := map (\<lambda>row. if matches c v row then updateRow e row else row)
                            (rows ut)\<rparr>)\<rparr>))"
| "exec (DeleteRow t c v) d =
     (case tables d t of
        None \<Rightarrow> None
      | Some ut \<Rightarrow>
          Some (OkPacket, d\<lparr>tables := (tables d)(t \<mapsto>
            ut\<lparr>rows := filter (\<lambda>row. \<not> matches c v row) (rows ut)\<rparr>)\<rparr>))"
| "exec (DeleteTableChanges t v) d =
     Some (OkPacket, d\<lparr>table_changes :=
       filter (\<lambda>row. \<not> (table_name row = t \<and> Some (primary_key row) = v))
              (table_changes d)\<rparr>)"
| "exec (SelectStatusDate i) d =
     Some (Dates (case sync_status d i of None \<Rightarrow> [] | Some row \<Rightarrow> [row_date row]), d)"
| "exec (InsertStatus i t k r dt s m) d =
     (case (sync_status d i, t, k, dt) of
        (None, Some t', Some k', Some dt') \<Rightarrow>
          Some (OkPacket, d\<lparr>sync_status := (sync_status d)(i \<mapsto>
            \<lparr>row_table_name = t', row_primary_key = k', row_remote = r,
             row_date = toSeconds d dt', row_status = s, row_message = m\<rparr>)\<rparr>)
      | _ \<Rightarrow> None)"
| "exec (UpdateStatus dt s m i) d =
     (case dt of
        None \<Rightarrow> None
      | Some dt' \<Rightarrow>
          Some (OkPacket, d\<lparr>sync_status :=
            (case sync_status d i of
               None \<Rightarrow> sync_status d
             | Some row \<Rightarrow> (sync_status d)(i \<mapsto>
                 row\<lparr>row_date := toSeconds d dt', row_status := s,
                     row_message := m\<rparr>))\<rparr>))"

text \<open>
  The casts \<open>query<{Field: string}>\<close>, \<open>countResult[0]['COUNT(*)']\<close> and
  \<open>query<{date: string}>\<close> of the source.
\<close>

fun fieldsOf :: "result \<Rightarrow> string list" where
  "fieldsOf (Fields fs) = fs"
| "fieldsOf _ = []"

fun countOf :: "result \<Rightarrow> nat" where
  "countOf (Count n) = n"
| "countOf _ = 0"

fun datesOf :: "result \<Rightarrow> int list" where
  "datesOf (Dates ds) = ds"
| "datesOf _ = []"

section \<open>Configuration, environment and state of the daemon\<close>

text \<open>
  A transformer is the export of a plug-in file: a function from the context to an entity,
  to \<open>null\<close> or to a promise of either. \<open>Plain\<close> is a value returned directly, \<open>Promise\<close>
  a promise that rejects with a message (\<open>Inl\<close>) or resolves to a value (\<open>Inr\<close>),
  \<open>Throws\<close> an exception raised by the call. \<open>null\<close> and \<open>undefined\<close> are both
  \<open>None\<close>. The context fields \<open>database\<close> and \<open>mqtt\<close> are handles and are left out.
\<close>

record TransformerContext =
  ctx_entity :: "SqlEntity option"
  source :: string
  target :: string

datatype TransformerResult =
    Plain "SqlEntity option"
  | Promise "string + SqlEntity option"
  | Throws string

type_synonym Transformer = "TransformerContext \<Rightarrow> TransformerResult"

text \<open>
  What \<open>require(filePath)\<close> gives for a file that exists: a function, something that is
  not a function, or an exception while the module loads.
\<close>

datatype moduleExport = Function Transformer | NotFunction | LoadError string

text \<open>
  The constants of one run: the fields of \<open>ApplicationConfiguration\<close> that the managers
  receive (\<open>updateInterval\<close> is the \<open>checkInterval\<close> passed to \<open>MqttManager\<close>, a
  double from 1 on), the instant \<open>schemaLoadTime\<close> at which \<open>new Date().getTime()\<close> was
  evaluated when the schema module was loaded, the transformer files on disk, the time
  zone of the process as the function \<open>timezoneOffset\<close> that gives, for an instant, what
  \<open>getTimezoneOffset()\<close> returns for it (minutes, positive west of UTC, changing with
  daylight saving time), and three library functions that are parameters of the model:
  the hex MD5 digest, \<open>to-camel-case\<close> and \<open>path.resolve\<close>.
\<close>

record config =
  clientName :: string
  updateInterval :: rat
  syncTables :: "string list"
  receiveTables :: "string list"
  remoteClients :: "string list"
  queueDirectory :: string
  transformerDirectory :: "string option"
  schemaLoadTime :: int
  timezoneOffset :: "int \<Rightarrow> int"
  transformerFiles :: "string \<rightharpoonup> moduleExport"
  md5 :: "string \<Rightarrow> string"
  toCamelCase :: "string \<Rightarrow> string"
  resolve :: "string \<Rightarrow> string \<Rightarrow> string"

text \<open>\<open>Application.run\<close>: the receive tables that are also sync tables.\<close>

definition bidirectionalTable :: "config \<Rightarrow> string list" where
  "bidirectionalTable cfg = filter (\<lambda>table. table \<in> set (syncTables cfg)) (receiveTables cfg)"

text \<open>The constructor of \<open>HardDiskQueue\<close>: the file of the queue with the given name.\<close>

definition queueFile :: "config \<Rightarrow> string \<Rightarrow> string" where
  "queueFile cfg queueName = resolve cfg (queueDirectory cfg) (queueName @ ''.json'')"

record QueueItem =
  topic :: string
  payload :: json

text \<open>
  What a handler does to the outside, in the order it does it: a statement sent to the
  database, an event emitted on the hub, a message handed to the bus client (the JSON text
  \<open>JSON.stringify\<close> makes of the payload is represented by the payload).
\<close>

datatype effect =
    Query statement
  | Emit event
  | Publish string json

text \<open>
  The state of the daemon after \<open>MqttManager.init\<close> has returned (so \<open>_connection\<close> is
  set): the wall clock read by \<open>new Date().getTime()\<close>, which stands still while one
  handler runs; the database; the fields of \<open>DatabaseManager\<close>, \<open>MqttManager\<close> and
  \<open>TransformerManager\<close>; the queue files (\<open>database.json\<close>, and the per-peer files by
  path); whether the bus client is connected; and the effects so far. The own members of
  \<open>connectedClients\<close> are a map from names to numbers. An own member of
  \<open>remoteClientQueues\<close> is a \<open>HardDiskQueue\<close> whose only field is the path
  \<open>queueFile cfg (''remote-'' @ peer)\<close>, so the field is the set of names that have one.
  \<open>nextActiveUpdate\<close> is \<open>null\<close> or a number. Writing a queue file succeeds, and the
  bus client accepts every message handed to it. The two caches \<open>cachedPrimaryKeys\<close> and
  \<open>cachedTransformer\<close> are keyed by table names of the node's own configuration and are
  maps (a table named \<open>hasOwnProperty\<close> or \<open>__proto__\<close> is not considered).
\<close>

record world =
  clock :: int
  db :: database
  cachedPrimaryKeys :: "string \<rightharpoonup> string"
  databaseQueue :: "DatabaseChange list option"
  connectedClients :: "string \<rightharpoonup> rat"
  nextActiveUpdate :: "number option"
  remoteClientQueues :: "string set"
  remoteFiles :: "string \<rightharpoonup> QueueItem list"
  mqttConnected :: bool
  cachedTransformer :: "string \<rightharpoonup> Transformer option"
  trace :: "effect list"

text \<open>
  A method that can throw returns the message of the exception (\<open>Inl\<close>) or its value
  (\<open>Inr\<close>), together with the state it leaves. \<open>andThen\<close> is \<open>await\<close> followed by the
  rest of the method: an exception skips the rest.
\<close>

type_synonym 'a io = "(string + 'a) \<times> world"

definition andThen :: "'a io \<Rightarrow> ('a \<Rightarrow> world \<Rightarrow> 'b io) \<Rightarrow> 'b io" where
  "andThen r f = (case r of (Inl e, w) \<Rightarrow> (Inl e, w) | (Inr x, w) \<Rightarrow> f x w)"

text \<open>
  \<open>AsyncEventEmitter.emit\<close>: no event has a transformer registered, and every event has
  exactly one listener, so \<open>emit\<close> of an event is: note the emission, then run that
  listener. \<open>emitted\<close> notes the emission.
\<close>

definition emitted :: "event \<Rightarrow> world \<Rightarrow> world" where
  "emitted ev w = w\<lparr>trace := trace w @ [Emit ev]\<rparr>"

section \<open>The bus gateway, outbound (class MqttManager)\<close>

text \<open>JavaScript truthiness of a \<open>string | null\<close>: \<open>null\<close> and the empty string are falsy.\<close>

fun truthy :: "string option \<Rightarrow> bool" where
  "truthy None = False"
| "truthy (Some s) = (s \<noteq> [])"

text \<open>
  \<^verbatim>\<open>isClientConnected\<close>: \<open>hasOwnProperty(client)\<close> on \<open>connectedClients\<close>, which can
  throw, and then the comparison of the clock with the recorded \<open>until\<close>.
\<close>

definition isClientConnected :: "string \<Rightarrow> world \<Rightarrow> string + bool" where
  "isClientConnected client w =
     (case hasOwnProperty ''this.connectedClients'' (\<lambda>k. connectedClients w k \<noteq> None) client of
        Inl e \<Rightarrow> Inl e
      | Inr own \<Rightarrow>
          Inr (own \<and> (case connectedClients w client of
                         None \<Rightarrow> False
                       | Some until \<Rightarrow> of_int (clock w) < until)))"

text \<open>
  \<^verbatim>\<open>publish\<close>. With a truthy \<open>remoteClient\<close> that is not connected: create the handle of
  the peer's queue \<open>remote-<peer>\<close> if \<open>remoteClientQueues\<close> has none, push
  \<open>{topic, payload}\<close> on it, return. Otherwise hand the message to the bus client. The
  two calls of \<open>hasOwnProperty\<close> can throw; nothing has been done when they do.
\<close>

definition publish :: "config \<Rightarrow> string \<Rightarrow> json \<Rightarrow> string option \<Rightarrow> world \<Rightarrow> unit io" where
  "publish cfg tp pl remoteClient w =
     (case remoteClient of
        Some client \<Rightarrow>
          if truthy remoteClient then
            (case isClientConnected client w of
               Inl e \<Rightarrow> (Inl e, w)
             | Inr isConnected \<Rightarrow>
                 if \<not> isConnected then
                   (case hasOwnProperty ''this.remoteClientQueues''
                           (\<lambda>k. k \<in> remoteClientQueues w) client of
                      Inl e \<Rightarrow> (Inl e, w)
                    | Inr _ \<Rightarrow>
                        (let queue = queueFile cfg (''remote-'' @ client)
                         in (Inr (),
                             w\<lparr>remoteClientQueues := setQueue (remoteClientQueues w) client,
                               remoteFiles := (remoteFiles w)
                                 (queue := push \<lparr>topic = tp, payload = pl\<rparr>
                                             (remoteFiles w queue))\<rparr>)))
                 else (Inr (), w\<lparr>trace := trace w @ [Publish tp pl]\<rparr>))
          else (Inr (), w\<lparr>trace := trace w @ [Publish tp pl]\<rparr>)
      | None \<Rightarrow> (Inr (), w\<lparr>trace := trace w @ [Publish tp pl]\<rparr>))"

text \<open>A member that \<open>JSON.stringify\<close> leaves out when its value is \<open>undefined\<close>.\<close>

fun optStr :: "string \<Rightarrow> string option \<Rightarrow> (string \<times> json) list" where
  "optStr k None = []"
| "optStr k (Some s) = [(k, JStr s)]"

fun optNum :: "string \<Rightarrow> rat option \<Rightarrow> (string \<times> json) list" where
  "optNum k None = []"
| "optNum k (Some n) = [(k, JNum n)]"

fun entityJson :: "SqlEntity option \<Rightarrow> json" where
  "entityJson None = JNull"
| "entityJson (Some e) = JObj e"

text \<open>\<^verbatim>\<open>error\<close>, the listener of \<open>local-save-failed\<close>.\<close>

definition error :: "config \<Rightarrow> DatabaseChangeError \<Rightarrow> world \<Rightarrow> unit io" where
  "error cfg data w =
     publish cfg (''/info/'' @ sender data)
       (JObj [(''message'', JStr ''error''),
              (''sender'', JStr (clientName cfg)),
              (''args'', JObj ([(''table'', JStr (table data))] @ optStr ''id'' (id' data)
                               @ optNum ''date'' (date data)
                               @ [(''message'', JStr (message data))]))])
       (Some (sender data)) w"

text \<open>\<^verbatim>\<open>dataReceived\<close>, the listener of \<open>local-save-successful\<close>.\<close>

definition dataReceived :: "config \<Rightarrow> DatabaseChangeInfo \<Rightarrow> world \<Rightarrow> unit io" where
  "dataReceived cfg data w =
     publish cfg (''/info/'' @ sender data)
       (JObj [(''message'', JStr ''data_received''),
              (''sender'', JStr (clientName cfg)),
              (''args'', JObj ([(''table'', JStr (table data))] @ optStr ''id'' (id' data)
                               @ optNum ''date'' (date data)))])
       (Some (sender data)) w"

text \<open>\<^verbatim>\<open>sendChange\<close>, the listener of \<open>remote-send-change\<close>.\<close>

definition sendChange ::
  "config \<Rightarrow> string \<Rightarrow> string option \<Rightarrow> SqlEntity option \<Rightarrow> string \<Rightarrow> world \<Rightarrow> unit io" where
  "sendChange cfg tbl i ent remote w =
     publish cfg (''/change/'' @ remote)
       (JObj ([(''table'', JStr tbl)] @ optStr ''id'' i
              @ [(''entity'', entityJson ent),
                 (''sender'', JStr (clientName cfg)),
                 (''date'', JNum (of_int (clock w)))]))
       (Some remote) w"

text \<open>
  \<^verbatim>\<open>sendConnectedUpdate\<close>: \<open>nextActiveUpdate\<close> becomes
  \<open>new Date(now + updateInterval + 2000).getTime()\<close>, and \<open>until\<close> is
  \<open>nextActiveUpdate + updateInterval + 1000\<close>.
\<close>

definition sendConnectedUpdate :: "config \<Rightarrow> world \<Rightarrow> unit io" where
  "sendConnectedUpdate cfg w =
     (let next = getTime (double (double (of_int (clock w) + updateInterval cfg) + 2000));
          w1 = w\<lparr>nextActiveUpdate := Some next\<rparr>
      in publish cfg ''/info''
           (JObj [(''sender'', JStr (clientName cfg)),
                  (''message'', JStr ''connected''),
                  (''args'', JObj [(''until'',
                      numberJson (addNumber (addNumber next (updateInterval cfg)) 1000))])])
           None w1)"

text \<open>
  \<^verbatim>\<open>tick\<close> of \<open>MqttManager\<close>. \<open>!this.nextActiveUpdate\<close> holds for \<open>null\<close>, for 0 and
  for \<open>NaN\<close>.
\<close>

definition mqttTick :: "config \<Rightarrow> world \<Rightarrow> unit io" where
  "mqttTick cfg w =
     (if \<not> mqttConnected w then (Inr (), w)
      else if (case nextActiveUpdate w of
                 None \<Rightarrow> True
               | Some NaN \<Rightarrow> True
               | Some (Num next) \<Rightarrow> next = 0 \<or> of_int (clock w) > next)
           then sendConnectedUpdate cfg w
      else (Inr (), w))"

text \<open>
  The loop of \<^verbatim>\<open>workRemoteClientQueue\<close> on the queue file \<open>queue\<close>: poll; publish the item
  for the peer; stop when the queue is empty or the peer is no longer connected.
\<close>

function workLoop :: "config \<Rightarrow> string \<Rightarrow> string \<Rightarrow> world \<Rightarrow> unit io" where
  "workLoop cfg client queue w =
     (case poll (remoteFiles w queue) of
        (None, _) \<Rightarrow> (Inr (), w)
      | (Some queueItem, rest) \<Rightarrow>
          (case publish cfg (topic queueItem) (payload queueItem) (Some client)
                  (w\<lparr>remoteFiles := (remoteFiles w)(queue := rest)\<rparr>) of
             (Inl e, w1) \<Rightarrow> (Inl e, w1)
           | (Inr _, w1) \<Rightarrow>
               (case isClientConnected client w1 of
                  Inl e \<Rightarrow> (Inl e, w1)
                | Inr isConnected \<Rightarrow>
                    if \<not> isConnected then (Inr (), w1)
                    else workLoop cfg client queue w1)))"
  by pat_completeness auto
termination
proof (relation "measure (\<lambda>(cfg, client, queue, w). length (readQueue (remoteFiles w queue)))")
  show "wf (measure (\<lambda>(cfg, client, queue, w). length (readQueue (remoteFiles w queue))))"
    by simp
next
  fix cfg :: config and client queue :: string and w :: world
    and x1 :: "QueueItem option" and rest :: "QueueItem list option"
    and queueItem :: QueueItem and r :: "string + unit" and w1 :: world
    and isConnected :: bool
  assume p: "(x1, rest) = poll (remoteFiles w queue)" "x1 = Some queueItem"
    and w1: "(r, w1) = publish cfg (topic queueItem) (payload queueItem) (Some client)
                         (w\<lparr>remoteFiles := (remoteFiles w)(queue := rest)\<rparr>)"
    and c: "isClientConnected client w1 = Inr isConnected" "\<not> \<not> isConnected"
  from c w1 have direct: "remoteFiles w1 = (remoteFiles w)(queue := rest)"
    by (auto simp: publish_def isClientConnected_def hasOwnProperty_def Let_def
             split: option.splits if_splits sum.splits)
  from p have "poll (remoteFiles w queue) = (Some queueItem, rest)"
    by simp
  then have "length (readQueue rest) < length (readQueue (remoteFiles w queue))"
    by (auto simp: poll_def readQueue_def writeQueue_def split: list.splits option.splits)
  with direct show "((cfg, client, queue, w1), (cfg, client, queue, w))
        \<in> measure (\<lambda>(cfg, client, queue, w). length (readQueue (remoteFiles w queue)))"
    by simp
qed

text \<open>\<^verbatim>\<open>workRemoteClientQueue\<close>\<close>

definition workRemoteClientQueue :: "config \<Rightarrow> string \<Rightarrow> world \<Rightarrow> unit io" where
  "workRemoteClientQueue cfg client w =
     (case hasOwnProperty ''this.remoteClientQueues'' (\<lambda>k. k \<in> remoteClientQueues w) client of
        Inl e \<Rightarrow> (Inl e, w)
      | Inr _ \<Rightarrow>
          workLoop cfg client (queueFile cfg (''remote-'' @ client))
            (w\<lparr>remoteClientQueues := setQueue (remoteClientQueues w) client\<rparr>))"

section \<open>The transformer stage, outbound (class TransformerManager)\<close>

text \<open>\<open>emit('remote-send-change', ...)\<close>: its listener is \<open>MqttManager.sendChange\<close>.\<close>

definition emit_remote_send_change ::
  "config \<Rightarrow> string \<Rightarrow> string option \<Rightarrow> SqlEntity option \<Rightarrow> string \<Rightarrow> world \<Rightarrow> unit io" where
  "emit_remote_send_change cfg tbl i ent remote w =
     sendChange cfg tbl i ent remote (emitted (RemoteSendChange tbl i ent remote) w)"

text \<open>
  \<^verbatim>\<open>findTransformer\<close>: no transformer without a (non-empty) directory; else the cached
  entry if the table has one; else the export of the file \<open>toCamelCase(table).js\<close> in the
  directory if the file exists and exports a function, and \<open>null\<close> otherwise; the outcome is
  cached.
\<close>

definition findTransformer :: "config \<Rightarrow> string \<Rightarrow> world \<Rightarrow> (Transformer option) io" where
  "findTransformer cfg tbl w =
     (if \<not> truthy (transformerDirectory cfg) then (Inr None, w)
      else case cachedTransformer w tbl of
        Some cached \<Rightarrow> (Inr cached, w)
      | None \<Rightarrow>
          (let filePath = resolve cfg (case transformerDirectory cfg of Some d \<Rightarrow> d | None \<Rightarrow> [])
                                      (toCamelCase cfg tbl @ ''.js'')
           in case transformerFiles cfg filePath of
                Some (LoadError e) \<Rightarrow> (Inl e, w)
              | Some (Function f) \<Rightarrow>
                  (Inr (Some f), w\<lparr>cachedTransformer := (cachedTransformer w)(tbl \<mapsto> Some f)\<rparr>)
              | Some NotFunction \<Rightarrow>
                  (Inr None, w\<lparr>cachedTransformer := (cachedTransformer w)(tbl \<mapsto> None)\<rparr>)
              | None \<Rightarrow>
                  (Inr None, w\<lparr>cachedTransformer := (cachedTransformer w)(tbl \<mapsto> None)\<rparr>)))"

text \<open>
  \<^verbatim>\<open>transformEntity\<close>: with a transformer, call it on the context; a falsy result gives
  \<open>null\<close>; a promise is resolved before the method's own promise resolves (awaited in the
  method, or adopted on return from the \<open>async\<close> method). Without a transformer the entity
  is returned as it is.
\<close>

definition transformEntity ::
  "config \<Rightarrow> string \<Rightarrow> SqlEntity option \<Rightarrow> string \<Rightarrow> string \<Rightarrow> world \<Rightarrow> (SqlEntity option) io" where
  "transformEntity cfg tbl ent src tgt w =
     andThen (findTransformer cfg tbl w) (\<lambda>transformer w1.
       case transformer of
         Some f \<Rightarrow>
           (case f \<lparr>ctx_entity = ent, source = src, target = tgt\<rparr> of
              Throws e \<Rightarrow> (Inl e, w1)
            | Plain None \<Rightarrow> (Inr None, w1)
            | Plain (Some r) \<Rightarrow> (Inr (Some r), w1)
            | Promise (Inl e) \<Rightarrow> (Inl e, w1)
            | Promise (Inr r) \<Rightarrow> (Inr r, w1))
       | None \<Rightarrow> (Inr ent, w1))"

text \<open>
  \<^verbatim>\<open>onLocalChange\<close>, the listener of \<open>local-change\<close>: the loop over the given clients.
  An exception of the transformer or of the listener of \<open>remote-send-change\<close> leaves the
  loop.
\<close>

fun onLocalChangeLoop ::
  "config \<Rightarrow> string list \<Rightarrow> string \<Rightarrow> string option \<Rightarrow> SqlEntity option \<Rightarrow> string option
     \<Rightarrow> world \<Rightarrow> unit io" where
  "onLocalChangeLoop cfg [] tbl i ent except w = (Inr (), w)"
| "onLocalChangeLoop cfg (client # clients) tbl i ent except w =
     (if Some client = except then onLocalChangeLoop cfg clients tbl i ent except w
      else andThen (transformEntity cfg tbl ent (clientName cfg) client w)
             (\<lambda>transformedEntity w1.
                andThen (emit_remote_send_change cfg tbl i transformedEntity client w1)
                  (\<lambda>_ w2. onLocalChangeLoop cfg clients tbl i ent except w2)))"

definition onLocalChange ::
  "config \<Rightarrow> string \<Rightarrow> string option \<Rightarrow> SqlEntity option \<Rightarrow> string option \<Rightarrow> world \<Rightarrow> unit io" where
  "onLocalChange cfg tbl i ent except w =
     onLocalChangeLoop cfg (remoteClients cfg) tbl i ent except w"

text \<open>\<open>emit('local-change', ...)\<close>: its listener is \<open>onLocalChange\<close>.\<close>

definition emit_local_change ::
  "config \<Rightarrow> string \<Rightarrow> string option \<Rightarrow> SqlEntity option \<Rightarrow> string option \<Rightarrow> world \<Rightarrow> unit io" where
  "emit_local_change cfg tbl i ent except w =
     onLocalChange cfg tbl i ent except (emitted (LocalChange tbl i ent except) w)"

section \<open>The database gateway (class DatabaseManager)\<close>

text \<open>
  \<open>emit('local-save-failed', ...)\<close> and \<open>emit('local-save-successful', ...)\<close>: their
  listeners are \<open>MqttManager.error\<close> and \<open>MqttManager.dataReceived\<close>.
\<close>

definition emit_local_save_failed :: "config \<Rightarrow> DatabaseChangeError \<Rightarrow> world \<Rightarrow> unit io" where
  "emit_local_save_failed cfg data w = error cfg data (emitted (LocalSaveFailed data) w)"

definition emit_local_save_successful :: "config \<Rightarrow> DatabaseChangeInfo \<Rightarrow> world \<Rightarrow> unit io" where
  "emit_local_save_successful cfg data w =
     dataReceived cfg data (emitted (LocalSaveSuccessful data) w)"

text \<open>
  \<open>MysqlDatabaseConnection.query\<close>: throws when the connection test fails; sends the
  statement; throws when the server reports an error.
\<close>

definition query :: "statement \<Rightarrow> world \<Rightarrow> result io" where
  "query st w =
     (if \<not> connected (db w) then (Inl ''MySQL is not connected'', w)
      else case exec st (db w) of
        None \<Rightarrow> (Inl ''could not query the statement!'', w\<lparr>trace := trace w @ [Query st]\<rparr>)
      | Some (r, d) \<Rightarrow> (Inr r, w\<lparr>db := d, trace := trace w @ [Query st]\<rparr>))"

text \<open>\<^verbatim>\<open>getPrimaryKey\<close>\<close>

definition getPrimaryKey :: "string \<Rightarrow> world \<Rightarrow> string io" where
  "getPrimaryKey tbl w =
     (case cachedPrimaryKeys w tbl of
        Some key \<Rightarrow> (Inr key, w)
      | None \<Rightarrow>
          andThen (query (ShowPrimaryColumns tbl) w) (\<lambda>result w1.
            case fieldsOf result of
              [] \<Rightarrow> (Inl (''Table '' @ [CHR 0x22] @ tbl @ [CHR 0x22]
                          @ '' does not have a primary key!''), w1)
            | key # _ \<Rightarrow> (Inr key, w1\<lparr>cachedPrimaryKeys := (cachedPrimaryKeys w1)(tbl \<mapsto> key)\<rparr>)))"

text \<open>The fields of a change that every report about it carries.\<close>

definition infoOf :: "DatabaseChange \<Rightarrow> DatabaseChangeInfo" where
  "infoOf data = \<lparr>sender = sender data, table = table data, id' = id' data, date = date data\<rparr>"

definition failure :: "DatabaseChange \<Rightarrow> string \<Rightarrow> DatabaseChangeError" where
  "failure data msg = \<lparr>sender = sender data, table = table data, id' = id' data,
                        date = date data, message = msg\<rparr>"

text \<open>
  The end of \<^verbatim>\<open>saveEntity\<close>: for a bidirectional table, delete the change-log rows of
  the row just written, then emit \<open>local-change\<close> with the sender as \<open>except\<close>.
\<close>

definition echo :: "config \<Rightarrow> DatabaseChange \<Rightarrow> world \<Rightarrow> unit io" where
  "echo cfg data w =
     (if table data \<in> set (bidirectionalTable cfg) then
        andThen (query (DeleteTableChanges (table data) (id' data)) w) (\<lambda>_ w1.
          emit_local_change cfg (table data) (id' data) (entity data) (Some (sender data)) w1)
      else (Inr (), w))"

text \<open>
  \<^verbatim>\<open>saveEntity\<close>. \<open>entity[primaryKey] !== id\<close> compares the member of the entity (or
  \<open>undefined\<close>) with the id (a string or \<open>undefined\<close>) without conversion.
\<close>

definition saveEntity :: "config \<Rightarrow> DatabaseChange \<Rightarrow> world \<Rightarrow> unit io" where
  "saveEntity cfg data w =
     andThen (getPrimaryKey (table data) w) (\<lambda>primaryKey w1.
       case entity data of
         Some e \<Rightarrow>
           if map_of e primaryKey \<noteq> map_option JStr (id' data) then
             emit_local_save_failed cfg (failure data ''Sent id does not match entity id!'') w1
           else
             andThen (query (CountRows (table data) primaryKey (id' data)) w1) (\<lambda>countResult w2.
               andThen (if countOf countResult = 0
                        then query (InsertRow (table data) e) w2
                        else query (UpdateRow (table data) e primaryKey (id' data)) w2)
                 (\<lambda>_ w3. echo cfg data w3))
       | None \<Rightarrow>
           andThen (query (DeleteRow (table data) primaryKey (id' data)) w1)
             (\<lambda>_ w3. echo cfg data w3))"

text \<open>
  \<^verbatim>\<open>remoteChange\<close>, the listener of \<open>local-save-change\<close>. The \<open>try\<close> block holds
  \<open>saveEntity\<close> and the emission of \<open>local-save-successful\<close>; an exception of either is
  caught and reported by \<open>local-save-failed\<close>, whose own exception is not caught.
\<close>

definition remoteChange :: "config \<Rightarrow> DatabaseChange \<Rightarrow> world \<Rightarrow> unit io" where
  "remoteChange cfg data w =
     (if \<not> connected (db w) then
        emit_local_save_failed cfg (failure data ''Could not connect to database'')
          (w\<lparr>databaseQueue := push data (databaseQueue w)\<rparr>)
      else case andThen (saveEntity cfg data w)
                  (\<lambda>_ w1. emit_local_save_successful cfg (infoOf data) w1) of
        (Inr _, w2) \<Rightarrow> (Inr (), w2)
      | (Inl err, w2) \<Rightarrow> emit_local_save_failed cfg (failure data err) w2)"

text \<open>
  \<^verbatim>\<open>createStatusId\<close>: the digest of \<open>`${table}-${id}-${remote}`\<close>; a template string
  prints \<open>undefined\<close> for an undefined value.
\<close>

fun templ :: "string option \<Rightarrow> string" where
  "templ None = ''undefined''"
| "templ (Some s) = s"

definition createStatusId :: "config \<Rightarrow> string option \<Rightarrow> string option \<Rightarrow> string \<Rightarrow> string" where
  "createStatusId cfg tbl i remote = md5 cfg (templ tbl @ ''-'' @ templ i @ ''-'' @ remote)"

fun statusName :: "Status \<Rightarrow> string" where
  "statusName Successful = ''successful''"
| "statusName Pending = ''pending''"
| "statusName Error = ''error''"

text \<open>The status object as it is stored on the queue (\<open>data as any as SqlEntity\<close>).\<close>

definition statusEntity :: "DatabaseStatusChange \<Rightarrow> SqlEntity" where
  "statusEntity data =
     optStr ''table'' (st_table data) @ optStr ''id'' (st_id data)
     @ optNum ''date'' (st_date data) @ optStr ''message'' (st_message data)
     @ [(''sender'', JStr (st_sender data)), (''status'', JStr (statusName (status data)))]"

text \<open>\<open>message || null\<close>: an undefined or empty message becomes \<open>NULL\<close>.\<close>

fun orNull :: "string option \<Rightarrow> string option" where
  "orNull None = None"
| "orNull (Some s) = (if s = [] then None else Some s)"

text \<open>
  \<open>new Date(date)\<close> as \<open>sqlstring\<close> writes it into a statement: \<open>NULL\<close> for an invalid
  date (\<open>date\<close> undefined or out of range), and otherwise the wall-clock time that the
  local getters of the date give, which is the instant moved by the zone offset that holds
  at that instant.
\<close>

definition toSqlDate :: "config \<Rightarrow> rat option \<Rightarrow> int option" where
  "toSqlDate cfg d =
     (case d of
        None \<Rightarrow> None
      | Some v \<Rightarrow>
          (case getTime v of
             NaN \<Rightarrow> None
           | Num t \<Rightarrow> Some (\<lfloor>t\<rfloor> - timezoneOffset cfg \<lfloor>t\<rfloor> * 60000)))"

text \<open>
  \<^verbatim>\<open>getLocalTimezone\<close>: the offset of the present instant, with the sign turned, as
  hours (\<open>Math.floor\<close>) and the remaining minutes; the function returns the text
  \<open>UTC+<hours>:<minutes>\<close>.
\<close>

definition getLocalTimezone :: "config \<Rightarrow> world \<Rightarrow> int \<times> int" where
  "getLocalTimezone cfg w =
     (let offset = timezoneOffset cfg (clock w);
          minutes = - offset;
          hours = minutes div 60
      in (hours, minutes - hours * 60))"

text \<open>
  \<^verbatim>\<open>parseSqlDate\<close> followed by \<open>getTime()\<close>: the \<open>DATETIME\<close> text with the text of
  \<open>getLocalTimezone\<close> appended is given to \<open>new Date\<close>. West of UTC the hours are
  negative and the text reads \<open>UTC+-5:00\<close>, which is not a date: the result is \<open>NaN\<close>.
  Otherwise the wall-clock time is taken at the present offset.
\<close>

definition parseSqlDate :: "config \<Rightarrow> world \<Rightarrow> int \<Rightarrow> number" where
  "parseSqlDate cfg w sqlDate =
     (case getLocalTimezone cfg w of
        (hours, minutes) \<Rightarrow>
          if hours < 0 then NaN
          else Num (of_int (sqlDate - (hours * 60 + minutes) * 60000)))"

text \<open>
  \<open>existingStatus.length !== 0 && parseSqlDate(existingStatus[0].date).getTime() > date\<close>;
  a comparison with \<open>NaN\<close> or with \<open>undefined\<close> is false.
\<close>

definition storedIsNewer :: "config \<Rightarrow> world \<Rightarrow> int list \<Rightarrow> rat option \<Rightarrow> bool" where
  "storedIsNewer cfg w existingStatus d =
     (case existingStatus of
        [] \<Rightarrow> False
      | stored # _ \<Rightarrow>
          (case (parseSqlDate cfg w stored, d) of
             (Num t, Some v) \<Rightarrow> t > v
           | _ \<Rightarrow> False))"

text \<open>\<^verbatim>\<open>setStatus\<close>, the listener of \<open>remote-status-change\<close>.\<close>

definition setStatus :: "config \<Rightarrow> DatabaseStatusChange \<Rightarrow> world \<Rightarrow> unit io" where
  "setStatus cfg data w =
     (if \<not> connected (db w) then
        (Inr (), w\<lparr>databaseQueue := push
           \<lparr>sender = [], table = ''sync_status'', id' = Some [],
            date = Some (of_int (clock w)),
            entity = Some (statusEntity data)\<rparr> (databaseQueue w)\<rparr>)
      else
        (let statusId = createStatusId cfg (st_table data) (st_id data) (st_sender data)
         in andThen (query (SelectStatusDate statusId) w) (\<lambda>existingStatus w1.
              if storedIsNewer cfg w1 (datesOf existingStatus) (st_date data) then (Inr (), w1)
              else if datesOf existingStatus = [] then
                andThen (query (InsertStatus statusId (st_table data) (st_id data)
                                  (st_sender data) (toSqlDate cfg (st_date data)) (status data)
                                  (orNull (st_message data))) w1)
                  (\<lambda>_ w2. (Inr (), w2))
              else
                andThen (query (UpdateStatus (toSqlDate cfg (st_date data)) (status data)
                                  (orNull (st_message data)) statusId) w1)
                  (\<lambda>_ w2. (Inr (), w2)))))"

section \<open>The transformer stage, inbound\<close>

text \<open>\<open>emit('local-save-change', ...)\<close>: its listener is \<open>DatabaseManager.remoteChange\<close>.\<close>

definition emit_local_save_change :: "config \<Rightarrow> DatabaseChange \<Rightarrow> world \<Rightarrow> unit io" where
  "emit_local_save_change cfg data w = remoteChange cfg data (emitted (LocalSaveChange data) w)"

text \<open>\<^verbatim>\<open>onRemoteChange\<close>, the listener of \<open>remote-change\<close>.\<close>

definition onRemoteChange :: "config \<Rightarrow> DatabaseChange \<Rightarrow> world \<Rightarrow> unit io" where
  "onRemoteChange cfg data w =
     andThen (transformEntity cfg (table data) (entity data) (sender data) (clientName cfg) w)
       (\<lambda>transformedEntity w1.
          emit_local_save_change cfg (data\<lparr>entity := transformedEntity\<rparr>) w1)"

text \<open>
  \<open>emit('remote-change', ...)\<close> and \<open>emit('remote-status-change', ...)\<close>: their listeners
  are \<open>onRemoteChange\<close> and \<open>DatabaseManager.setStatus\<close>.
\<close>

definition emit_remote_change :: "config \<Rightarrow> DatabaseChange \<Rightarrow> world \<Rightarrow> unit io" where
  "emit_remote_change cfg data w = onRemoteChange cfg data (emitted (RemoteChange data) w)"

definition emit_remote_status_change :: "config \<Rightarrow> DatabaseStatusChange \<Rightarrow> world \<Rightarrow> unit io" where
  "emit_remote_status_change cfg data w = setStatus cfg data (emitted (RemoteStatusChange data) w)"

section \<open>The message schemas (configuration-scheme.ts)\<close>

text \<open>
  A schema is the set of instances the \<open>jsonschema\<close> validator accepts. The members of a
  parsed object have distinct names. String lengths count characters of ASCII text.

  \<open>definitions.clientName\<close>: a string matching \<^verbatim>\<open>^[a-zA-Z0-9-_]{2,32}$\<close>.
\<close>

definition clientNameChar :: "char \<Rightarrow> bool" where
  "clientNameChar c =
     (c \<in> set (''abcdefghijklmnopqrstuvwxyz'' @ ''ABCDEFGHIJKLMNOPQRSTUVWXYZ''
               @ ''0123456789'' @ ''-_''))"

fun clientNameScheme :: "json \<Rightarrow> bool" where
  "clientNameScheme (JStr s) = (2 \<le> length s \<and> length s \<le> 32 \<and> list_all clientNameChar s)"
| "clientNameScheme _ = False"

text \<open>\<open>definitions.tableName\<close>: a string of 1 to 128 characters.\<close>

fun tableNameScheme :: "json \<Rightarrow> bool" where
  "tableNameScheme (JStr s) = (1 \<le> length s \<and> length s \<le> 128)"
| "tableNameScheme _ = False"

text \<open>
  \<open>definitions.date\<close>: a number with \<open>minimum: new Date().getTime()\<close>, the expression
  being evaluated once, when the module is loaded.
\<close>

fun dateScheme :: "config \<Rightarrow> json \<Rightarrow> bool" where
  "dateScheme cfg (JNum n) = (of_int (schemaLoadTime cfg) \<le> n)"
| "dateScheme cfg _ = False"

text \<open>\<open>definitions.nonEmptyString\<close>\<close>

fun nonEmptyStringScheme :: "json \<Rightarrow> bool" where
  "nonEmptyStringScheme (JStr s) = (1 \<le> length s)"
| "nonEmptyStringScheme _ = False"

text \<open>\<open>type: 'object'\<close> and \<open>type: ['object', 'null']\<close>\<close>

fun objectType :: "json \<Rightarrow> bool" where
  "objectType (JObj _) = True"
| "objectType _ = False"

fun objectOrNullType :: "json \<Rightarrow> bool" where
  "objectOrNullType (JObj _) = True"
| "objectOrNullType JNull = True"
| "objectOrNullType _ = False"

text \<open>
  An object schema with \<open>properties\<close>, \<open>required\<close> and \<open>additionalProperties: false\<close>:
  the instance is an object, every member is a listed property and satisfies its schema,
  and every required name is a member.
\<close>

fun objectScheme :: "(string \<times> (json \<Rightarrow> bool)) list \<Rightarrow> string list \<Rightarrow> json \<Rightarrow> bool" where
  "objectScheme properties required (JObj members) =
     (list_all (\<lambda>(k, v). case map_of properties k of
                            Some scheme \<Rightarrow> scheme v
                          | None \<Rightarrow> False) members
      \<and> list_all (\<lambda>k. k \<in> fst ` set members) required)"
| "objectScheme properties required _ = False"

definition remoteChangeScheme :: "config \<Rightarrow> json \<Rightarrow> bool" where
  "remoteChangeScheme cfg =
     objectScheme
       [(''sender'', clientNameScheme),
        (''table'', tableNameScheme),
        (''id'', nonEmptyStringScheme),
        (''date'', dateScheme cfg),
        (''entity'', objectOrNullType)]
       [''sender'', ''table'', ''entity'']"

fun messageEnum :: "json \<Rightarrow> bool" where
  "messageEnum (JStr s) =
     (s \<in> set [''connected'', ''data_received'', ''error'', ''connection_lost''])"
| "messageEnum _ = False"

definition infoMessageScheme :: "json \<Rightarrow> bool" where
  "infoMessageScheme =
     objectScheme
       [(''sender'', clientNameScheme),
        (''message'', messageEnum),
        (''args'', objectType)]
       [''sender'', ''message'', ''args'']"

definition connectedInfoMessageArgsScheme :: "config \<Rightarrow> json \<Rightarrow> bool" where
  "connectedInfoMessageArgsScheme cfg =
     objectScheme [(''until'', dateScheme cfg)] [''until'']"

definition dataReceivedInfoMessageArgsScheme :: "config \<Rightarrow> json \<Rightarrow> bool" where
  "dataReceivedInfoMessageArgsScheme cfg =
     objectScheme
       [(''table'', tableNameScheme),
        (''id'', nonEmptyStringScheme),
        (''date'', dateScheme cfg)]
       [''table'', ''id'', ''date'']"

definition errorInfoMessageArgsScheme :: "config \<Rightarrow> json \<Rightarrow> bool" where
  "errorInfoMessageArgsScheme cfg =
     objectScheme
       [(''table'', tableNameScheme),
        (''id'', nonEmptyStringScheme),
        (''date'', dateScheme cfg),
        (''message'', nonEmptyStringScheme)]
       []"

section \<open>The bus gateway, inbound\<close>

text \<open>
  Reading a member of a parsed payload: \<open>undefined\<close> (\<open>None\<close>) when the payload is not an
  object or has no such member.
\<close>

fun member :: "json \<Rightarrow> string \<Rightarrow> json option" where
  "member (JObj members) k = map_of members k"
| "member _ k = None"

text \<open>
  The casts of the source (\<open>let remoteChange: DatabaseChange = payload\<close>,
  \<open>let infoMessage: InfoMessage = payload\<close>): they are taken after validation, which has
  made the required members strings and the optional ones strings or numbers.
\<close>

fun asString :: "json option \<Rightarrow> string" where
  "asString (Some (JStr s)) = s"
| "asString _ = []"

fun asOptString :: "json option \<Rightarrow> string option" where
  "asOptString (Some (JStr s)) = Some s"
| "asOptString _ = None"

fun asNumber :: "json option \<Rightarrow> rat" where
  "asNumber (Some (JNum n)) = n"
| "asNumber _ = 0"

fun asOptNumber :: "json option \<Rightarrow> rat option" where
  "asOptNumber (Some (JNum n)) = Some n"
| "asOptNumber _ = None"

fun asEntity :: "json option \<Rightarrow> SqlEntity option" where
  "asEntity (Some (JObj e)) = Some e"
| "asEntity _ = None"

fun asArgs :: "json option \<Rightarrow> json" where
  "asArgs (Some v) = v"
| "asArgs None = JNull"

definition asDatabaseChange :: "json \<Rightarrow> DatabaseChange" where
  "asDatabaseChange pl =
     \<lparr>sender = asString (member pl ''sender''),
      table = asString (member pl ''table''),
      id' = asOptString (member pl ''id''),
      date = asOptNumber (member pl ''date''),
      entity = asEntity (member pl ''entity'')\<rparr>"

text \<open>\<open>{...message.args, sender: message.sender, status}\<close>\<close>

definition statusChange :: "json \<Rightarrow> string \<Rightarrow> Status \<Rightarrow> DatabaseStatusChange" where
  "statusChange args from st =
     \<lparr>st_sender = from,
      st_table = asOptString (member args ''table''),
      st_id = asOptString (member args ''id''),
      st_date = asOptNumber (member args ''date''),
      status = st,
      st_message = asOptString (member args ''message'')\<rparr>"

text \<open>\<open>topic.startsWith(prefix)\<close>\<close>

definition startsWith :: "string \<Rightarrow> string \<Rightarrow> bool" where
  "startsWith s pre = (take (length pre) s = pre)"

text \<open>
  \<^verbatim>\<open>receivedMessage\<close>. The raw payload is given as the outcome of \<open>JSON.parse\<close>:
  \<open>None\<close> when the text is not JSON and \<open>JSON.parse\<close> throws.
\<close>

definition receivedMessage :: "config \<Rightarrow> string \<Rightarrow> json option \<Rightarrow> world \<Rightarrow> unit io" where
  "receivedMessage cfg tp rawPayload w =
     (case rawPayload of
        None \<Rightarrow> (Inl ''SyntaxError'', w)
      | Some pl \<Rightarrow>
          if startsWith tp (''/change/'' @ clientName cfg) then
            (if \<not> remoteChangeScheme cfg pl then (Inr (), w)
             else
               (let remoteChange = asDatabaseChange pl
                in if table remoteChange \<notin> set (receiveTables cfg) then
                     error cfg
                       (failure remoteChange ''The table is not configured as receive table!'') w
                   else emit_remote_change cfg remoteChange w))
          else if tp = ''/info'' \<or> tp = ''/info/'' @ clientName cfg then
            (if \<not> infoMessageScheme pl then (Inr (), w)
             else
               (let infoSender = asString (member pl ''sender'');
                    infoMessage = asString (member pl ''message'');
                    args = asArgs (member pl ''args'')
                in if infoSender = clientName cfg then (Inr (), w)
                   else if infoMessage = ''connected'' then
                     (if \<not> connectedInfoMessageArgsScheme cfg args then (Inr (), w)
                      else workRemoteClientQueue cfg infoSender
                             (w\<lparr>connectedClients := setNumber (connectedClients w)
                                  infoSender (asNumber (member args ''until''))\<rparr>))
                   else if infoMessage = ''data_received'' then
                     (if \<not> dataReceivedInfoMessageArgsScheme cfg args then (Inr (), w)
                      else emit_remote_status_change cfg
                             (statusChange args infoSender Successful) w)
                   else if infoMessage = ''error'' then
                     (if \<not> errorInfoMessageArgsScheme cfg args then (Inr (), w)
                      else emit_remote_status_change cfg
                             (statusChange args infoSender Error) w)
                   else if infoMessage = ''connection_lost'' then
                     (Inr (), w\<lparr>connectedClients :=
                                  deleteMember (connectedClients w) infoSender\<rparr>)
                   else (Inr (), w)))
          else (Inr (), w))"

section \<open>An example node\<close>

text \<open>
  Node \<open>nodeA\<close> with peers \<open>nodeB\<close> and \<open>nodeC\<close>, the table \<open>users\<close> synchronised in
  both directions, no transformer directory, check interval 1000 ms, and the time zone
  UTC. The digest, the camel-case conversion and the path resolution are stand-ins. The
  server rounds to whole seconds. At the instant 10000 the database and the bus are
  connected, \<open>nodeB\<close> is present until 20000, and the last presence update was scheduled
  for 9000.
\<close>

definition exampleConfig :: config where
  "exampleConfig =
     \<lparr>clientName = ''nodeA'', updateInterval = 1000,
      syncTables = [''users''], receiveTables = [''users''],
      remoteClients = [''nodeB'', ''nodeC''],
      queueDirectory = ''/queue'', transformerDirectory = None,
      schemaLoadTime = 5000, timezoneOffset = (\<lambda>t. 0), transformerFiles = Map.empty,
      md5 = (\<lambda>s. s), toCamelCase = (\<lambda>s. s), resolve = (\<lambda>dir f. dir @ ''/'' @ f)\<rparr>"

definition exampleDatabase :: database where
  "exampleDatabase =
     \<lparr>connected = True, toSeconds = (\<lambda>ms. (ms + 500) div 1000 * 1000),
      tables = [''users'' \<mapsto> \<lparr>primary = [''id''], rows = []\<rparr>],
      table_changes = [\<lparr>change_id = 1, table_name = ''users'', primary_key = ''u1'',
                        change_date = 9500\<rparr>],
      sync_status = [''users-u1-nodeB'' \<mapsto>
        \<lparr>row_table_name = ''users'', row_primary_key = ''u1'', row_remote = ''nodeB'',
         row_date = 1000, row_status = Successful, row_message = None\<rparr>]\<rparr>"

definition exampleWorld :: world where
  "exampleWorld =
     \<lparr>clock = 10000, db = exampleDatabase, cachedPrimaryKeys = Map.empty,
      databaseQueue = None, connectedClients = [''nodeB'' \<mapsto> 20000],
      nextActiveUpdate = Some (Num 9000), remoteClientQueues = {}, remoteFiles = Map.empty,
      mqttConnected = True, cachedTransformer = Map.empty, trace = []\<rparr>"

text \<open>
  A change from \<open>nodeB\<close> whose id is not the primary key of its entity; a change that
  names this node itself as the sender; and three status reports from \<open>nodeB\<close> about the
  row \<open>u1\<close> of \<open>users\<close>, whose stored status carries the date 1000: an older one, one with
  the same date, a newer one; and a report about a row that has no status yet.
\<close>

definition mismatchChange :: DatabaseChange where
  "mismatchChange =
     \<lparr>sender = ''nodeB'', table = ''users'', id' = Some ''u1'', date = Some 6000,
      entity = Some [(''id'', JStr ''u2''), (''name'', JStr ''x'')]\<rparr>"


definition statusAt :: "string \<Rightarrow> rat \<Rightarrow> DatabaseStatusChange" where
  "statusAt i d =
     \<lparr>st_sender = ''nodeB'', st_table = Some ''users'', st_id = Some i,
      st_date = Some d, status = Error, st_message = Some ''boom''\<rparr>"

text \<open>
  A change from \<open>nodeB\<close> whose id is the primary key of its entity. A transformer that adds
  the member \<open>origin\<close>, holding the source, to an entity and returns a promise of the
  result; and the example node with a transformer directory in which the file for the
  table \<open>users\<close> exports that transformer.
\<close>

definition matchingChange :: DatabaseChange where
  "matchingChange =
     \<lparr>sender = ''nodeB'', table = ''users'', id' = Some ''u1'', date = Some 6000,
      entity = Some [(''id'', JStr ''u1''), (''name'', JStr ''x'')]\<rparr>"


text \<open>
  The example node in a zone five hours west of UTC all year: \<open>getTimezoneOffset()\<close> is
  300. And the presence announcement of a peer whose name is \<open>hasOwnProperty\<close>.
\<close>

definition westConfig :: config where
  "westConfig = exampleConfig\<lparr>timezoneOffset := (\<lambda>t. 300)\<rparr>"

definition connectedHasOwnProperty :: json where
  "connectedHasOwnProperty =
     JObj [(''sender'', JStr ''hasOwnProperty''), (''message'', JStr ''connected''),
           (''args'', JObj [(''until'', JNum 20000)])]"


section \<open>Reading a trace\<close>

text \<open>
  The kinds of effect, the table, id and target of an emitted \<open>remote-send-change\<close>, and
  the payload of an emitted \<open>local-save-change\<close>.
\<close>

fun isPublish :: "effect \<Rightarrow> bool" where
  "isPublish (Publish tp pl) = True"
| "isPublish _ = False"

fun isQuery :: "effect \<Rightarrow> bool" where
  "isQuery (Query st) = True"
| "isQuery _ = False"

fun sendTarget :: "effect \<Rightarrow> (string \<times> string option \<times> string) option" where
  "sendTarget (Emit (RemoteSendChange tbl i ent remote)) = Some (tbl, i, remote)"
| "sendTarget _ = None"

fun savedChange :: "effect \<Rightarrow> DatabaseChange option" where
  "savedChange (Emit (LocalSaveChange data)) = Some data"
| "savedChange _ = None"

text \<open>
  One state extends another when its trace is the other's followed by effects none of
  which is an emitted \<open>local-save-change\<close>.
\<close>

definition extends :: "world \<Rightarrow> world \<Rightarrow> bool" where
  "extends w w' = (\<exists>es. trace w' = trace w @ es \<and> List.map_filter savedChange es = [])"


section \<open>Properties of the durable queue\<close>

lemma readQueue_push: "readQueue (push x qf) = readQueue qf @ [x]"
  by (simp add: push_def writeQueue_def readQueue_def)

lemma readQueue_pushAll: "readQueue (pushAll xs qf) = readQueue qf @ xs"
  by (induction xs arbitrary: qf) (simp_all add: readQueue_push)

lemma pollTimes_drain:
  "pollTimes (length q) (Some q) = (map Some q, Some [])"
proof (induction q)
  case Nil
  show ?case by simp
next
  case (Cons x q)
  then show ?case
    by (simp add: poll_def readQueue_def writeQueue_def)
qed

lemma pushAll_Some: "\<exists>q. pushAll xs (push x qf) = Some q"
  by (induction xs arbitrary: x qf) (simp_all add: push_def writeQueue_def)

text \<open>
  C8. The durable queue is first-in first-out. For any file state with contents \<open>q\<close>,
  \<open>push x\<close> leaves the contents \<open>q @ [x]\<close>. \<open>poll\<close> on contents \<open>x # q\<close> returns
  \<open>x\<close> and leaves \<open>q\<close>; on an empty queue (no file, or a file holding the empty array)
  it returns null and the contents stay empty. Hence polling as many times as there are
  items, after pushing the items \<open>xs\<close> onto contents \<open>q\<close>, returns \<open>q @ xs\<close> in
  exactly that order and leaves the queue empty.
\<close>

theorem C8_queue_fifo:
  "readQueue (push x qf) = readQueue qf @ [x]
   \<and> poll (Some (y # q)) = (Some y, Some q)
   \<and> poll (None :: 'a list option) = (None, None)
   \<and> poll (Some ([] :: 'a list)) = (None, Some [])
   \<and> fst (pollTimes (length (readQueue qf) + length xs) (pushAll xs qf))
       = map Some (readQueue qf @ xs)
   \<and> readQueue (snd (pollTimes (length (readQueue qf) + length xs) (pushAll xs qf))) = []"
proof -
  have drain: "pollTimes (length (readQueue qf) + length xs) (pushAll xs qf)
               = (map Some (readQueue qf @ xs), Some [])" if "xs \<noteq> []"
  proof -
    from that obtain z zs where xs: "xs = z # zs" by (cases xs) auto
    obtain c where c: "pushAll xs qf = Some c"
      using pushAll_Some [of zs z qf] by (auto simp: xs)
    have "readQueue (pushAll xs qf) = readQueue qf @ xs"
      by (rule readQueue_pushAll)
    with c have "c = readQueue qf @ xs" by (simp add: readQueue_def)
    with c pollTimes_drain [of c] show ?thesis by simp
  qed
  have empty_case: "pollTimes (length (readQueue qf)) qf
                     = (map Some (readQueue qf), if qf = None then None else Some [])"
  proof (cases qf)
    case None
    then show ?thesis by (simp add: readQueue_def)
  next
    case (Some c)
    with pollTimes_drain [of c] show ?thesis by (simp add: readQueue_def)
  qed
  have all: "pollTimes (length (readQueue qf) + length xs) (pushAll xs qf)
             = (map Some (readQueue qf @ xs), if qf = None \<and> xs = [] then None else Some [])"
  proof (cases "xs = []")
    case True
    with empty_case show ?thesis by simp
  next
    case False
    with drain show ?thesis by simp
  qed
  have p1: "readQueue (push x qf) = readQueue qf @ [x]"
    by (rule readQueue_push)
  have p2: "poll (Some (y # q)) = (Some y, Some q)"
    by (simp add: poll_def readQueue_def writeQueue_def)
  have p3: "poll (None :: 'a list option) = (None, None)"
    by (simp add: poll_def readQueue_def)
  have p4: "poll (Some ([] :: 'a list)) = (None, Some [])"
    by (simp add: poll_def readQueue_def)
  have p5: "fst (pollTimes (length (readQueue qf) + length xs) (pushAll xs qf))
             = map Some (readQueue qf @ xs)"
    by (simp only: all fst_conv)
  have p6: "readQueue (snd (pollTimes (length (readQueue qf) + length xs) (pushAll xs qf))) = []"
  proof -
    have "snd (pollTimes (length (readQueue qf) + length xs) (pushAll xs qf))
          = (if qf = None \<and> xs = [] then None else Some [])"
      by (simp only: all snd_conv)
    then show ?thesis by (simp add: readQueue_def)
  qed
  from p1 p2 p3 p4 p5 p6 show ?thesis by blast
qed

section \<open>Unfolding the handlers\<close>

lemmas example_defs = exampleConfig_def exampleWorld_def exampleDatabase_def

lemmas handler_defs =
  publish_def isClientConnected_def hasOwnProperty_def setQueue_def setNumber_def
  error_def dataReceived_def sendChange_def
  emit_remote_send_change_def findTransformer_def transformEntity_def onLocalChange_def
  emit_local_change_def emit_local_save_failed_def emit_local_save_successful_def
  query_def getPrimaryKey_def infoOf_def failure_def echo_def saveEntity_def remoteChange_def
  emit_local_save_change_def onRemoteChange_def emit_remote_change_def
  emit_remote_status_change_def setStatus_def createStatusId_def
  andThen_def emitted_def bidirectionalTable_def queueFile_def push_def readQueue_def
  writeQueue_def Let_def

lemma query_connected:
  "connected (db w) \<Longrightarrow> query st w =
     (case exec st (db w) of
        None \<Rightarrow> (Inl ''could not query the statement!'', w\<lparr>trace := trace w @ [Query st]\<rparr>)
      | Some (r, d) \<Rightarrow> (Inr r, w\<lparr>db := d, trace := trace w @ [Query st]\<rparr>))"
  by (simp add: query_def)

section \<open>Sums of whole numbers\<close>

text \<open>
  A whole number of magnitude up to \<open>2^53\<close> is a double, and a whole number of magnitude
  up to 8.64e15 is a time value.
\<close>

lemma roundEven_of_int: "roundEven (of_int n) = n"
  by (simp add: roundEven_def)

lemma double_of_int:
  assumes "\<bar>n\<bar> \<le> 9007199254740992"
  shows "double (of_int n) = of_int n"
proof (cases "n = 0")
  case True
  then show ?thesis by (simp add: double_def)
next
  case False
  define m where "m = \<bar>n\<bar>"
  define e where "e = bitlen m - 1"
  from False have m: "0 < m" "1 \<le> m" by (simp_all add: m_def)
  have a: "\<bar>of_int n :: rat\<bar> = of_int m" by (simp add: m_def)
  have ex: "exponent (of_int m) = e"
    using m by (simp add: exponent_def e_def)
  have e0: "0 \<le> e"
  proof (rule ccontr)
    assume "\<not> 0 \<le> e"
    then have "nat (bitlen m) = 0" by (simp add: e_def)
    with bitlen_bounds [OF m(1)] m(2) show False by simp
  qed
  from bitlen_bounds [OF m(1)] have b: "2 ^ nat e \<le> m"
    by (simp add: e_def)
  have "nat e \<le> 53"
  proof (rule ccontr)
    assume "\<not> nat e \<le> 53"
    then have "54 \<le> nat e" by simp
    then have "(2::int) ^ 54 \<le> 2 ^ nat e" by (rule power_increasing) simp
    with b assms show False by (simp add: m_def)
  qed
  with e0 have e53: "e \<le> 53" by simp
  have sg: "sgn (of_int n :: rat) * of_int m = of_int n"
    by (simp add: m_def sgn_if)
  show ?thesis
  proof (cases "e \<le> 52")
    case True
    define k where "k = nat (52 - e)"
    from True e0 have ulp: "pow2 (max e (- 1022) - 52) = 1 / 2 ^ k"
      by (auto simp add: pow2_def k_def max_def)
    have q: "(of_int m :: rat) / (1 / 2 ^ k) = of_int (m * 2 ^ k)" by simp
    have "double (of_int n) = sgn (of_int n) * of_int (m * 2 ^ k) * (1 / 2 ^ k)"
      using False unfolding double_def Let_def a ex ulp q roundEven_of_int by simp
    also have "\<dots> = sgn (of_int n :: rat) * of_int m" by simp
    finally show ?thesis using sg by simp
  next
    case False
    with e53 have e: "e = 53" by simp
    with b(1) assms have m53: "m = 9007199254740992" by (simp add: m_def)
    from e have ulp: "pow2 (max e (- 1022) - 52) = 2"
      by (simp add: pow2_def)
    have q: "(of_int m :: rat) / 2 = of_int 4503599627370496" by (simp add: m53)
    have "double (of_int n) = sgn (of_int n) * of_int 4503599627370496 * 2"
      using \<open>n \<noteq> 0\<close> unfolding double_def Let_def a ex ulp q roundEven_of_int by simp
    also have "\<dots> = sgn (of_int n :: rat) * of_int m" by (simp add: m53)
    finally show ?thesis using sg by simp
  qed
qed

lemma double_Ints:
  assumes "x \<in> \<int>" and "\<bar>x\<bar> \<le> 9007199254740992"
  shows "double x = x"
proof -
  from assms(1) obtain n where n: "x = of_int n" by (auto elim: Ints_cases)
  with assms(2) have "\<bar>n\<bar> \<le> 9007199254740992"
    by (metis abs_le_iff of_int_abs of_int_le_numeral_iff of_int_numeral of_int_le_iff)
  with n show ?thesis by (simp add: double_of_int)
qed

lemma getTime_Ints:
  assumes "x \<in> \<int>" and "\<bar>x\<bar> \<le> 8640000000000000"
  shows "getTime x = Num x"
proof -
  from assms(1) obtain n where n: "x = of_int n" by (auto elim: Ints_cases)
  with assms(2) show ?thesis by (simp add: getTime_def)
qed

lemma double_numeral:
  "(numeral k :: int) \<le> 9007199254740992 \<Longrightarrow> double (numeral k) = numeral k"
  using double_of_int [of "numeral k"] by simp

lemma getTime_numeral:
  "(numeral k :: int) \<le> 8640000000000000 \<Longrightarrow> getTime (numeral k) = Num (numeral k)"
  using getTime_Ints [of "numeral k"] by simp

section \<open>Publishing to a peer\<close>

text \<open>
  As long as neither the presence map nor the map of queue handles has an own member
  named \<open>hasOwnProperty\<close>, \<open>publish\<close> with a (non-empty) peer name returns normally: for a
  peer that is not connected nothing is handed to the bus, the peer's queue file
  \<open>remote-<peer>\<close> grows by exactly the item \<open>{topic, payload}\<close> at its end, and no other
  queue file changes; for a connected peer the payload is handed to the bus under the
  topic and no queue file changes.
\<close>

lemma publish_to_peer:
  assumes "client \<noteq> []"
    and "connectedClients w ''hasOwnProperty'' = None"
    and "''hasOwnProperty'' \<notin> remoteClientQueues w"
  shows "(isClientConnected client w = Inr False \<longrightarrow>
            fst (publish cfg tp pl (Some client) w) = Inr ()
          \<and> trace (snd (publish cfg tp pl (Some client) w)) = trace w
          \<and> readQueue (remoteFiles (snd (publish cfg tp pl (Some client) w))
                         (queueFile cfg (''remote-'' @ client)))
              = readQueue (remoteFiles w (queueFile cfg (''remote-'' @ client)))
                @ [\<lparr>topic = tp, payload = pl\<rparr>]
          \<and> (\<forall>q. q \<noteq> queueFile cfg (''remote-'' @ client) \<longrightarrow>
                 remoteFiles (snd (publish cfg tp pl (Some client) w)) q = remoteFiles w q))
       \<and> (isClientConnected client w = Inr True \<longrightarrow>
            fst (publish cfg tp pl (Some client) w) = Inr ()
          \<and> trace (snd (publish cfg tp pl (Some client) w)) = trace w @ [Publish tp pl]
          \<and> remoteFiles (snd (publish cfg tp pl (Some client) w)) = remoteFiles w)
       \<and> (isClientConnected client w
            = Inr (client \<noteq> ''__proto__''
                   \<and> (\<exists>until. connectedClients w client = Some until
                               \<and> of_int (clock w) < until)))"
  using assms
  by (auto simp add: publish_def Let_def readQueue_push isClientConnected_def
        hasOwnProperty_def split: option.splits)

text \<open>
  C2 fails on the example node after one message. A peer whose name is \<open>hasOwnProperty\<close>
  announces its presence on \<open>/info\<close>. The message is valid and is handled without an
  exception; the presence map then has an own member \<open>hasOwnProperty\<close>, the number 20000.
  From then on \<open>publish\<close> for any peer, be it absent from the presence map (\<open>nodeC\<close>) or
  present in it until 20000 (\<open>nodeB\<close>, at the instant 10000), throws a \<open>TypeError\<close> in
  \<open>isClientConnected\<close>: nothing is handed to the bus and nothing is queued, the state
  is as it was.
\<close>

theorem C2_publish_after_peer_named_hasOwnProperty:
  "infoMessageScheme connectedHasOwnProperty
   \<and> connectedInfoMessageArgsScheme exampleConfig
       (asArgs (member connectedHasOwnProperty ''args''))
   \<and> fst (receivedMessage exampleConfig ''/info'' (Some connectedHasOwnProperty) exampleWorld)
       = Inr ()
   \<and> connectedClients
       (snd (receivedMessage exampleConfig ''/info'' (Some connectedHasOwnProperty)
               exampleWorld)) ''hasOwnProperty'' = Some 20000
   \<and> publish exampleConfig ''/change/nodeC'' JNull (Some ''nodeC'')
       (snd (receivedMessage exampleConfig ''/info'' (Some connectedHasOwnProperty)
               exampleWorld))
     = (Inl ''this.connectedClients.hasOwnProperty is not a function'',
        snd (receivedMessage exampleConfig ''/info'' (Some connectedHasOwnProperty)
               exampleWorld))
   \<and> publish exampleConfig ''/change/nodeB'' JNull (Some ''nodeB'')
       (snd (receivedMessage exampleConfig ''/info'' (Some connectedHasOwnProperty)
               exampleWorld))
     = (Inl ''this.connectedClients.hasOwnProperty is not a function'',
        snd (receivedMessage exampleConfig ''/info'' (Some connectedHasOwnProperty)
               exampleWorld))"
proof -
  have r: "receivedMessage exampleConfig ''/info'' (Some connectedHasOwnProperty) exampleWorld
        = (Inr (), exampleWorld\<lparr>connectedClients :=
                      [''nodeB'' \<mapsto> 20000, ''hasOwnProperty'' \<mapsto> 20000],
                    remoteClientQueues := {''hasOwnProperty''}\<rparr>)"
    by (simp add: receivedMessage_def connectedHasOwnProperty_def infoMessageScheme_def
          connectedInfoMessageArgsScheme_def startsWith_def clientNameChar_def
          workRemoteClientQueue_def workLoop.simps poll_def example_defs handler_defs)
  show ?thesis
    unfolding r
    by (simp add: connectedHasOwnProperty_def infoMessageScheme_def
          connectedInfoMessageArgsScheme_def clientNameChar_def example_defs handler_defs)
qed

section \<open>The presence update\<close>

text \<open>
  C7, as the claim states it, fails on the example node: at the instant 10000, with the
  update scheduled for 9000 and the interval 1000, the tick publishes \<open>until = 15000\<close>,
  which is not \<open>now + 2 * updateInterval + 1000 = 13000\<close>.
\<close>

theorem C7_until_counterexample:
  "mqttConnected exampleWorld
   \<and> nextActiveUpdate exampleWorld = Some (Num 9000)
   \<and> of_int (clock exampleWorld) > (9000 :: rat)
   \<and> trace (snd (mqttTick exampleConfig exampleWorld)) =
       [Publish ''/info''
          (JObj [(''sender'', JStr ''nodeA''),
                 (''message'', JStr ''connected''),
                 (''args'', JObj [(''until'', JNum 15000)])])]
   \<and> (15000 :: rat)
       \<noteq> of_int (clock exampleWorld) + 2 * updateInterval exampleConfig + 1000"
  by (simp add: mqttTick_def sendConnectedUpdate_def publish_def Let_def example_defs
        double_numeral getTime_numeral)

text \<open>
  C7, amended. Let the check interval be a whole number of milliseconds (at least 1, as
  the configuration schema demands), the clock not before the epoch, and
  \<open>now + 2 * updateInterval + 3000\<close> not beyond the last time value 8.64e15. Whenever a
  tick, with the bus client connected, finds the clock past \<open>nextActiveUpdate\<close>, the
  gateway sets \<open>nextActiveUpdate\<close> to \<open>now + updateInterval + 2000\<close> and publishes on
  \<open>/info\<close> a \<open>connected\<close> message whose \<open>args.until\<close> is
  \<open>now + 2 * updateInterval + 3000\<close>; nothing else changes.
\<close>

theorem C7_presence_update:
  assumes "mqttConnected w" and "nextActiveUpdate w = Some (Num next)"
    and "of_int (clock w) > next"
    and "0 \<le> clock w" and "updateInterval cfg \<in> \<int>" and "1 \<le> updateInterval cfg"
    and "of_int (clock w) + 2 * updateInterval cfg + 3000 \<le> 8640000000000000"
  shows "mqttTick cfg w =
           (Inr (),
            w\<lparr>nextActiveUpdate := Some (Num (of_int (clock w) + updateInterval cfg + 2000)),
              trace := trace w @
                [Publish ''/info''
                   (JObj [(''sender'', JStr (clientName cfg)),
                          (''message'', JStr ''connected''),
                          (''args'', JObj [(''until'',
                              JNum (of_int (clock w) + 2 * updateInterval cfg + 3000))])])]\<rparr>)"
proof -
  define now :: rat where "now = of_int (clock w)"
  define i where "i = updateInterval cfg"
  have now: "now \<in> \<int>" "0 \<le> now" using assms(4) by (simp_all add: now_def)
  have i: "i \<in> \<int>" "1 \<le> i" using assms(5,6) by (simp_all add: i_def)
  have bound: "now + 2 * i + 3000 \<le> 8640000000000000"
    using assms(7) by (simp add: now_def i_def)
  have s1: "double (now + i) = now + i"
    using now i bound by (intro double_Ints) auto
  have s2: "double (now + i + 2000) = now + i + 2000"
    using now i bound by (intro double_Ints) auto
  have s3: "getTime (now + i + 2000) = Num (now + i + 2000)"
    using now i bound by (intro getTime_Ints) auto
  have s4: "double (now + i + 2000 + i) = now + i + 2000 + i"
    using now i bound by (intro double_Ints) auto
  have s5: "double (now + i + 2000 + i + 1000) = now + 2 * i + 3000"
  proof -
    have "now + i + 2000 + i + 1000 = now + 2 * i + 3000" by simp
    moreover have "double (now + 2 * i + 3000) = now + 2 * i + 3000"
      using now i bound by (intro double_Ints) auto
    ultimately show ?thesis by (simp only:)
  qed
  have "sendConnectedUpdate cfg w =
           (Inr (),
            w\<lparr>nextActiveUpdate := Some (Num (now + i + 2000)),
              trace := trace w @
                [Publish ''/info''
                   (JObj [(''sender'', JStr (clientName cfg)),
                          (''message'', JStr ''connected''),
                          (''args'', JObj [(''until'', JNum (now + 2 * i + 3000))])])]\<rparr>)"
    unfolding sendConnectedUpdate_def Let_def now_def [symmetric] i_def [symmetric]
      s1 s2 s3 addNumber.simps s4 s5 numberJson.simps
    by (simp add: publish_def)
  with assms(1-3) show ?thesis
    by (simp add: mqttTick_def now_def i_def)
qed

theorem C7_presence_update_witness:
  "mqttConnected exampleWorld \<and> nextActiveUpdate exampleWorld = Some (Num 9000)
   \<and> of_int (clock exampleWorld) > (9000 :: rat)
   \<and> 0 \<le> clock exampleWorld
   \<and> updateInterval exampleConfig \<in> \<int> \<and> 1 \<le> updateInterval exampleConfig
   \<and> of_int (clock exampleWorld) + 2 * updateInterval exampleConfig + 3000
       \<le> (8640000000000000 :: rat)
   \<and> nextActiveUpdate (snd (mqttTick exampleConfig exampleWorld)) = Some (Num 13000)
   \<and> trace (snd (mqttTick exampleConfig exampleWorld)) =
       [Publish ''/info''
          (JObj [(''sender'', JStr ''nodeA''),
                 (''message'', JStr ''connected''),
                 (''args'', JObj [(''until'', JNum 15000)])])]"
proof -
  have h: "mqttConnected exampleWorld" "nextActiveUpdate exampleWorld = Some (Num 9000)"
    "of_int (clock exampleWorld) > (9000 :: rat)"
    "0 \<le> clock exampleWorld"
    "updateInterval exampleConfig \<in> \<int>" "1 \<le> updateInterval exampleConfig"
    "of_int (clock exampleWorld) + 2 * updateInterval exampleConfig + 3000
       \<le> (8640000000000000 :: rat)"
    by (simp_all add: example_defs)
  from h C7_presence_update [OF h]
  show ?thesis by (simp add: example_defs)
qed

section \<open>Status rows\<close>

text \<open>
  C3 fails on a node west of UTC. On the example node in the zone five hours west, the
  database connected, \<open>nodeB\<close> reports on the row \<open>u1\<close> of \<open>users\<close> first with the date
  8000 and then with the older date 6000. The first report is stored: the row carries the
  wall-clock time of the instant 8000. When the second report is processed, the text of
  that stored date with \<open>UTC+-5:00\<close> appended is not a date, its time value is \<open>NaN\<close>, the
  comparison with the incoming date is false, and the older report is not dropped: the
  row is updated and its date goes back by two seconds.
\<close>

theorem C3_older_report_overwrites_west_of_utc:
  "connected (db exampleWorld)
   \<and> timezoneOffset westConfig (clock exampleWorld) = 300
   \<and> fst (setStatus westConfig (statusAt ''u1'' 8000) exampleWorld) = Inr ()
   \<and> map_option row_date
       (sync_status (db (snd (setStatus westConfig (statusAt ''u1'' 8000) exampleWorld)))
          ''users-u1-nodeB'') = Some (- 17992000)
   \<and> parseSqlDate westConfig
        (snd (setStatus westConfig (statusAt ''u1'' 8000) exampleWorld)) (- 17992000) = NaN
   \<and> fst (setStatus westConfig (statusAt ''u1'' 6000)
            (snd (setStatus westConfig (statusAt ''u1'' 8000) exampleWorld))) = Inr ()
   \<and> map_option row_date
       (sync_status (db (snd (setStatus westConfig (statusAt ''u1'' 6000)
                               (snd (setStatus westConfig (statusAt ''u1'' 8000)
                                       exampleWorld)))))
          ''users-u1-nodeB'') = Some (- 17994000)"
proof -
  have g: "getTime 8000 = Num 8000" "getTime 6000 = Num 6000"
    by (simp_all add: getTime_numeral)
  have i: "createStatusId westConfig (Some ''users'') (Some ''u1'') ''nodeB''
             = ''users-u1-nodeB''"
    by (simp add: createStatusId_def westConfig_def exampleConfig_def)
  have p: "parseSqlDate westConfig w d = NaN" for w d
    by (simp add: parseSqlDate_def getLocalTimezone_def westConfig_def Let_def)
  have t: "toSqlDate westConfig (Some 8000) = Some (- 17992000)"
    "toSqlDate westConfig (Some 6000) = Some (- 17994000)"
    by (simp_all add: toSqlDate_def g westConfig_def)
  have s1: "setStatus westConfig (statusAt ''u1'' 8000) exampleWorld =
          (Inr (), exampleWorld\<lparr>db := (db exampleWorld)\<lparr>sync_status :=
              [''users-u1-nodeB'' \<mapsto>
                 \<lparr>row_table_name = ''users'', row_primary_key = ''u1'', row_remote = ''nodeB'',
                  row_date = - 17992000, row_status = Error, row_message = Some ''boom''\<rparr>]\<rparr>,
             trace := [Query (SelectStatusDate ''users-u1-nodeB''),
                       Query (UpdateStatus (Some (- 17992000)) Error (Some ''boom'')
                                ''users-u1-nodeB'')]\<rparr>)"
    by (simp add: setStatus_def statusAt_def i p t storedIsNewer_def query_def andThen_def
          Let_def example_defs split: list.splits)
  have z: "timezoneOffset westConfig t = 300" for t
    by (simp add: westConfig_def)
  show ?thesis
    unfolding s1
    by (simp add: setStatus_def statusAt_def i p t z storedIsNewer_def query_def andThen_def
          Let_def example_defs split: list.splits)
qed

section \<open>A change whose id is not the id of its entity\<close>

text \<open>
  C4. On the example node the change \<open>mismatchChange\<close> (id \<open>u1\<close>, entity with primary key
  \<open>u2\<close>) is handled while the database is connected. The handler sends no statement
  that writes a row and emits no \<open>local-change\<close>; it emits \<open>local-save-failed\<close> with the
  message of the id mismatch, and then, \<open>saveEntity\<close> having returned without an
  exception, it emits \<open>local-save-successful\<close> for the same change.
\<close>

theorem C4_mismatch_also_reports_success:
  "connected (db exampleWorld)
   \<and> entity mismatchChange = Some [(''id'', JStr ''u2''), (''name'', JStr ''x'')]
   \<and> id' mismatchChange = Some ''u1''
   \<and> fst (remoteChange exampleConfig mismatchChange exampleWorld) = Inr ()
   \<and> db (snd (remoteChange exampleConfig mismatchChange exampleWorld)) = db exampleWorld
   \<and> trace (snd (remoteChange exampleConfig mismatchChange exampleWorld)) =
     [Query (ShowPrimaryColumns ''users''),
      Emit (LocalSaveFailed
        \<lparr>sender = ''nodeB'', table = ''users'', id' = Some ''u1'',
         date = Some 6000, message = ''Sent id does not match entity id!''\<rparr>),
      Publish ''/info/nodeB''
       (JObj
         [(''message'', JStr ''error''), (''sender'', JStr ''nodeA''),
          (''args'',
           JObj
            [(''table'', JStr ''users''), (''id'', JStr ''u1''),
             (''date'', JNum 6000),
             (''message'', JStr ''Sent id does not match entity id!'')])]),
      Emit (LocalSaveSuccessful
        \<lparr>sender = ''nodeB'', table = ''users'', id' = Some ''u1'', date = Some 6000\<rparr>),
      Publish ''/info/nodeB''
       (JObj
         [(''message'', JStr ''data_received''), (''sender'', JStr ''nodeA''),
          (''args'',
           JObj
            [(''table'', JStr ''users''), (''id'', JStr ''u1''),
             (''date'', JNum 6000)])])]"
  by (simp add: example_defs mismatchChange_def handler_defs)

section \<open>Messages that name this node as their sender\<close>






section \<open>What the handlers add to the trace\<close>

lemma map_filter_append:
  "List.map_filter f (xs @ ys) = List.map_filter f xs @ List.map_filter f ys"
  by (simp add: List.map_filter_def)

lemma extends_refl: "trace w' = trace w \<Longrightarrow> extends w w'"
  by (simp add: extends_def)

lemma extends_trans: "extends w w1 \<Longrightarrow> extends w1 w2 \<Longrightarrow> extends w w2"
  by (auto simp: extends_def map_filter_append)

lemma extends_step:
  "trace w' = trace w @ [e] \<Longrightarrow> savedChange e = None \<Longrightarrow> extends w w'"
  by (auto simp: extends_def)

lemma publish_extends: "extends w (snd (publish cfg tp pl rc w))"
  by (auto simp: publish_def Let_def intro: extends_refl extends_step
           split: option.splits sum.splits)

lemma emitted_extends: "savedChange (Emit ev) = None \<Longrightarrow> extends w (emitted ev w)"
  by (auto simp: emitted_def intro: extends_step)

lemma andThen_extends:
  assumes "extends w (snd m)" and "\<And>x w1. extends w1 (snd (f x w1))"
  shows "extends w (snd (andThen m f))"
proof (cases m)
  case (Pair r w0)
  show ?thesis
  proof (cases r)
    case (Inl e)
    with Pair assms(1) show ?thesis by (simp add: andThen_def)
  next
    case (Inr x)
    with Pair assms(1) assms(2) [of w0 x] show ?thesis
      by (auto simp: andThen_def intro: extends_trans)
  qed
qed

lemma findTransformer_keeps:
  "trace (snd (findTransformer cfg tbl w)) = trace w \<and> db (snd (findTransformer cfg tbl w)) = db w"
  by (auto simp: findTransformer_def Let_def split: if_splits option.splits moduleExport.splits)

lemma transformEntity_keeps:
  "trace (snd (transformEntity cfg tbl ent src tgt w)) = trace w
   \<and> db (snd (transformEntity cfg tbl ent src tgt w)) = db w"
proof -
  obtain r w1 where f: "findTransformer cfg tbl w = (r, w1)"
    by (cases "findTransformer cfg tbl w")
  with findTransformer_keeps [of cfg tbl w] have "trace w1 = trace w" "db w1 = db w" by auto
  with f show ?thesis
    by (auto simp: transformEntity_def andThen_def
             split: sum.splits option.splits TransformerResult.splits)
qed

lemma transformEntity_extends: "extends w (snd (transformEntity cfg tbl ent src tgt w))"
  by (simp add: transformEntity_keeps extends_refl)

lemma emit_remote_send_change_extends:
  "extends w (snd (emit_remote_send_change cfg tbl i ent remote w))"
  unfolding emit_remote_send_change_def sendChange_def
  by (rule extends_trans [OF emitted_extends publish_extends]) simp

lemma onLocalChangeLoop_extends:
  "extends w (snd (onLocalChangeLoop cfg clients tbl i ent except w))"
proof (induction clients arbitrary: w)
  case Nil
  show ?case by (simp add: extends_refl)
next
  case (Cons client clients)
  show ?case
  proof (cases "Some client = except")
    case True
    with Cons show ?thesis by simp
  next
    case False
    have "extends w (snd (andThen (transformEntity cfg tbl ent (clientName cfg) client w)
             (\<lambda>transformedEntity w1.
                andThen (emit_remote_send_change cfg tbl i transformedEntity client w1)
                  (\<lambda>_ w2. onLocalChangeLoop cfg clients tbl i ent except w2))))"
      by (intro andThen_extends transformEntity_extends emit_remote_send_change_extends
            Cons.IH)
    with False show ?thesis by simp
  qed
qed

lemma emit_local_change_extends:
  "extends w (snd (emit_local_change cfg tbl i ent except w))"
  unfolding emit_local_change_def onLocalChange_def
  by (rule extends_trans [OF emitted_extends onLocalChangeLoop_extends]) simp

lemma emit_local_save_failed_extends: "extends w (snd (emit_local_save_failed cfg data w))"
  unfolding emit_local_save_failed_def error_def
  by (rule extends_trans [OF emitted_extends publish_extends]) simp

lemma emit_local_save_successful_extends:
  "extends w (snd (emit_local_save_successful cfg data w))"
  unfolding emit_local_save_successful_def dataReceived_def
  by (rule extends_trans [OF emitted_extends publish_extends]) simp

lemma query_extends: "extends w (snd (query st w))"
  by (auto simp: query_def intro: extends_refl extends_step split: option.splits)

lemma getPrimaryKey_extends: "extends w (snd (getPrimaryKey tbl w))"
  unfolding getPrimaryKey_def
  by (auto split: option.splits list.splits
           intro!: andThen_extends query_extends intro: extends_refl)

lemma echo_extends: "extends w (snd (echo cfg data w))"
  unfolding echo_def
  by (auto intro!: andThen_extends query_extends emit_local_change_extends intro: extends_refl)

lemma saveEntity_extends: "extends w (snd (saveEntity cfg data w))"
  unfolding saveEntity_def
  by (auto split: option.splits
           intro!: andThen_extends query_extends getPrimaryKey_extends echo_extends
                   emit_local_save_failed_extends
           intro: extends_refl)

lemma remoteChange_extends: "extends w (snd (remoteChange cfg data w))"
proof (cases "connected (db w)")
  case False
  have "extends w (w\<lparr>databaseQueue := push data (databaseQueue w)\<rparr>)"
    by (simp add: extends_refl)
  from extends_trans [OF this emit_local_save_failed_extends] False show ?thesis
    by (simp add: remoteChange_def)
next
  case True
  define m where "m = andThen (saveEntity cfg data w)
                  (\<lambda>_ w1. emit_local_save_successful cfg (infoOf data) w1)"
  have e: "extends w (snd m)"
    unfolding m_def
    by (intro andThen_extends saveEntity_extends emit_local_save_successful_extends)
  obtain r w2 where s: "m = (r, w2)" by (cases m)
  with e have "extends w w2" by simp
  with True s [unfolded m_def] show ?thesis
    by (cases r)
       (auto simp: remoteChange_def
             intro: extends_trans [OF _ emit_local_save_failed_extends])
qed

lemma emit_local_save_change_trace:
  "\<exists>es. trace (snd (emit_local_save_change cfg data w))
          = trace w @ Emit (LocalSaveChange data) # es
        \<and> List.map_filter savedChange es = []"
proof -
  from remoteChange_extends [of "emitted (LocalSaveChange data) w" cfg data]
  show ?thesis
    by (auto simp: extends_def emit_local_save_change_def emitted_def)
qed


section \<open>A change without id and date\<close>

lemma remoteChange_valid:
  assumes "distinct (map fst ms)" and "set (map fst ms) = {''sender'', ''table'', ''entity''}"
    and "map_of ms ''sender'' = Some (JStr s)" and "clientNameScheme (JStr s)"
    and "map_of ms ''table'' = Some (JStr t)" and "tableNameScheme (JStr t)"
    and "map_of ms ''entity'' = Some e" and "objectOrNullType e"
  shows "remoteChangeScheme cfg (JObj ms)"
proof -
  let ?properties = "[(''sender'', clientNameScheme), (''table'', tableNameScheme),
                     (''id'', nonEmptyStringScheme), (''date'', dateScheme cfg),
                     (''entity'', objectOrNullType)]"
  have ok: "case map_of ?properties k of Some scheme \<Rightarrow> scheme v | None \<Rightarrow> False"
    if kv: "(k, v) \<in> set ms" for k v
  proof -
    from kv assms(1) have m: "map_of ms k = Some v" by simp
    from kv have "k \<in> set (map fst ms)" by force
    then have "k = ''sender'' \<or> k = ''table'' \<or> k = ''entity''"
      unfolding assms(2) by simp
    then show ?thesis
    proof (elim disjE)
      assume "k = ''sender''"
      with m assms(3) assms(4) show ?thesis by simp
    next
      assume "k = ''table''"
      with m assms(5) assms(6) show ?thesis by simp
    next
      assume "k = ''entity''"
      with m assms(7) assms(8) show ?thesis by simp
    qed
  qed
  have "''sender'' \<in> set (map fst ms)" "''table'' \<in> set (map fst ms)"
    "''entity'' \<in> set (map fst ms)"
    unfolding assms(2) by simp_all
  then have req: "list_all (\<lambda>k. k \<in> fst ` set ms) [''sender'', ''table'', ''entity'']"
    by simp
  have "list_all (\<lambda>(k, v). case map_of ?properties k of Some scheme \<Rightarrow> scheme v
                                                        | None \<Rightarrow> False) ms"
    unfolding list_all_iff using ok by blast
  with req show ?thesis
    unfolding remoteChangeScheme_def by (simp only: objectScheme.simps simp_thms)
qed

lemma emit_remote_change_trace:
  "\<exists>es. trace (snd (emit_remote_change cfg data w)) = trace w @ Emit (RemoteChange data) # es"
proof -
  let ?w0 = "emitted (RemoteChange data) w"
  obtain r w1 where t:
    "transformEntity cfg (table data) (entity data) (sender data) (clientName cfg) ?w0 = (r, w1)"
    by (cases "transformEntity cfg (table data) (entity data) (sender data) (clientName cfg) ?w0")
  with transformEntity_keeps [of cfg "table data" "entity data" "sender data" "clientName cfg" ?w0]
  have k: "trace w1 = trace w @ [Emit (RemoteChange data)]"
    by (simp add: emitted_def)
  show ?thesis
  proof (cases r)
    case (Inl e)
    with t k show ?thesis
      by (simp add: emit_remote_change_def onRemoteChange_def andThen_def)
  next
    case (Inr v)
    obtain es where "trace (snd (emit_local_save_change cfg (data\<lparr>entity := v\<rparr>) w1))
        = trace w1 @ Emit (LocalSaveChange (data\<lparr>entity := v\<rparr>)) # es"
      using emit_local_save_change_trace by blast
    with Inr t k show ?thesis
      by (simp add: emit_remote_change_def onRemoteChange_def andThen_def)
  qed
qed

text \<open>
  C10. A payload on \<open>/change/<self>\<close> whose members are exactly \<open>sender\<close> (a valid client
  name), \<open>table\<close> (a valid table name) and \<open>entity\<close> (an object or null), with no \<open>id\<close>
  and no \<open>date\<close>, passes the change schema; when its table is a receive table the
  handler is the emission of \<open>remote-change\<close> for the change with \<open>id\<close> and \<open>date\<close>
  undefined, and that event is the first effect added to the trace.
\<close>

theorem C10_change_without_id_and_date:
  assumes "tp = ''/change/'' @ clientName cfg"
    and "distinct (map fst ms)" and "set (map fst ms) = {''sender'', ''table'', ''entity''}"
    and "map_of ms ''sender'' = Some (JStr s)" and "clientNameScheme (JStr s)"
    and "map_of ms ''table'' = Some (JStr t)" and "tableNameScheme (JStr t)"
    and "map_of ms ''entity'' = Some e" and "objectOrNullType e"
    and "t \<in> set (receiveTables cfg)"
  shows "remoteChangeScheme cfg (JObj ms)
       \<and> receivedMessage cfg tp (Some (JObj ms)) w
           = emit_remote_change cfg
               \<lparr>sender = s, table = t, id' = None, date = None, entity = asEntity (Some e)\<rparr> w
       \<and> (\<exists>es. trace (snd (receivedMessage cfg tp (Some (JObj ms)) w))
                 = trace w @ Emit (RemoteChange
                     \<lparr>sender = s, table = t, id' = None, date = None,
                      entity = asEntity (Some e)\<rparr>) # es)"
proof -
  let ?c = "\<lparr>sender = s, table = t, id' = None, date = None, entity = asEntity (Some e)\<rparr>"
  have v: "remoteChangeScheme cfg (JObj ms)"
    by (rule remoteChange_valid [OF assms(2-9)])
  have "''id'' \<notin> set (map fst ms)" "''date'' \<notin> set (map fst ms)"
    unfolding assms(3) by simp_all
  then have n: "map_of ms ''id'' = None" "map_of ms ''date'' = None"
    by (simp_all add: map_of_eq_None_iff)
  with assms(4,6,8) have c: "asDatabaseChange (JObj ms) = ?c"
    by (simp add: asDatabaseChange_def)
  have st: "startsWith tp (''/change/'' @ clientName cfg)"
    using assms(1) by (simp add: startsWith_def)
  from v c st assms(10)
  have r: "receivedMessage cfg tp (Some (JObj ms)) w = emit_remote_change cfg ?c w"
    by (simp add: receivedMessage_def Let_def)
  from v r emit_remote_change_trace [of cfg ?c w] show ?thesis by simp
qed


theorem C10_change_without_id_and_date_witness:
  "clientNameScheme (JStr ''nodeB'') \<and> tableNameScheme (JStr ''users'')
   \<and> ''users'' \<in> set (receiveTables exampleConfig)
   \<and> remoteChangeScheme exampleConfig
        (JObj [(''sender'', JStr ''nodeB''), (''table'', JStr ''users''), (''entity'', JNull)])
   \<and> receivedMessage exampleConfig ''/change/nodeA''
        (Some (JObj [(''sender'', JStr ''nodeB''), (''table'', JStr ''users''),
                     (''entity'', JNull)])) exampleWorld
       = emit_remote_change exampleConfig
           \<lparr>sender = ''nodeB'', table = ''users'', id' = None, date = None,
            entity = asEntity (Some JNull)\<rparr>
           exampleWorld
   \<and> (\<exists>es. trace (snd (receivedMessage exampleConfig ''/change/nodeA''
        (Some (JObj [(''sender'', JStr ''nodeB''), (''table'', JStr ''users''),
                     (''entity'', JNull)])) exampleWorld))
       = trace exampleWorld @ Emit (RemoteChange
           \<lparr>sender = ''nodeB'', table = ''users'', id' = None, date = None,
            entity = asEntity (Some JNull)\<rparr>)
         # es)"
proof -
  let ?ms = "[(''sender'', JStr ''nodeB''), (''table'', JStr ''users''), (''entity'', JNull)]"
  have h1: "''/change/nodeA'' = ''/change/'' @ clientName exampleConfig"
    by (simp add: exampleConfig_def)
  have h2: "distinct (map fst ?ms)" by simp
  have h3: "set (map fst ?ms) = {''sender'', ''table'', ''entity''}" by auto
  have h4: "map_of ?ms ''sender'' = Some (JStr ''nodeB'')" by simp
  have h5: "clientNameScheme (JStr ''nodeB'')" by (simp add: clientNameChar_def)
  have h6: "map_of ?ms ''table'' = Some (JStr ''users'')" by simp
  have h7: "tableNameScheme (JStr ''users'')" by simp
  have h8: "map_of ?ms ''entity'' = Some JNull" by simp
  have h9: "objectOrNullType JNull" by simp
  have h10: "''users'' \<in> set (receiveTables exampleConfig)" by (simp add: exampleConfig_def)
  from C10_change_without_id_and_date [OF h1 h2 h3 h4 h5 h6 h7 h8 h9 h10, of exampleWorld]
    h5 h7 h10
  show ?thesis by blast
qed

section \<open>The echo of an applied change\<close>

lemma exec_connected: "exec st d = Some (r, d') \<Longrightarrow> connected d' = connected d"
  by (cases st) (auto split: option.splits prod.splits)

lemma query_result:
  assumes "query st w = (r, w')"
  shows "connected (db w') = connected (db w)
       \<and> (\<exists>qs. trace w' = trace w @ qs \<and> list_all isQuery qs)"
proof (cases "connected (db w)")
  case False
  with assms show ?thesis by (auto simp: query_def)
next
  case True
  show ?thesis
  proof (cases "exec st (db w)")
    case None
    with True assms show ?thesis by (auto simp: query_def)
  next
    case (Some p)
    obtain r0 d where "p = (r0, d)" by (cases p)
    with Some True assms exec_connected [of st "db w" r0 d] show ?thesis
      by (auto simp: query_def)
  qed
qed

lemma getPrimaryKey_result:
  assumes "getPrimaryKey tbl w = (r, w')"
  shows "connected (db w') = connected (db w)
       \<and> (\<exists>qs. trace w' = trace w @ qs \<and> list_all isQuery qs)"
proof (cases "cachedPrimaryKeys w tbl")
  case (Some key)
  with assms show ?thesis by (simp add: getPrimaryKey_def)
next
  case None
  obtain r0 w0 where q: "query (ShowPrimaryColumns tbl) w = (r0, w0)"
    by (cases "query (ShowPrimaryColumns tbl) w")
  from query_result [OF q] None assms q show ?thesis
    by (cases r0) (auto simp: getPrimaryKey_def andThen_def split: list.splits)
qed

lemma map_filter_isPublish:
  "list_all isPublish ps \<Longrightarrow> List.map_filter sendTarget ps = []"
  by (induction ps) (auto elim: isPublish.elims)

lemma not_query_isPublish: "list_all isPublish ps \<Longrightarrow> list_all (\<lambda>e. \<not> isQuery e) ps"
  by (induction ps) (auto elim: isPublish.elims)

lemma publish_trace:
  "\<exists>ps. trace (snd (publish cfg tp pl rc w)) = trace w @ ps \<and> list_all isPublish ps"
  by (auto simp: publish_def Let_def split: option.splits sum.splits)

lemma publish_db: "db (snd (publish cfg tp pl rc w)) = db w"
  by (auto simp: publish_def Let_def split: option.splits sum.splits)

lemma emit_remote_send_change_trace:
  "\<exists>ps. trace (snd (emit_remote_send_change cfg tbl i ent remote w))
          = trace w @ Emit (RemoteSendChange tbl i ent remote) # ps \<and> list_all isPublish ps"
  using publish_trace [of cfg _ _ _ "emitted (RemoteSendChange tbl i ent remote) w"]
  by (simp add: emit_remote_send_change_def sendChange_def emitted_def)

lemma emit_remote_send_change_db:
  "db (snd (emit_remote_send_change cfg tbl i ent remote w)) = db w"
  by (simp add: emit_remote_send_change_def sendChange_def emitted_def publish_db)

lemma onLocalChangeLoop_fanout:
  "onLocalChangeLoop cfg clients tbl i ent except w = (Inr (), w') \<Longrightarrow>
     \<exists>es. trace w' = trace w @ es
        \<and> List.map_filter sendTarget es
            = map (\<lambda>c. (tbl, i, c)) (filter (\<lambda>c. Some c \<noteq> except) clients)
        \<and> list_all (\<lambda>e. \<not> isQuery e) es
        \<and> db w' = db w"
proof (induction clients arbitrary: w)
  case Nil
  then show ?case by simp
next
  case (Cons client clients)
  show ?case
  proof (cases "Some client = except")
    case True
    with Cons.prems have "onLocalChangeLoop cfg clients tbl i ent except w = (Inr (), w')"
      by simp
    from Cons.IH [OF this] True show ?thesis by auto
  next
    case False
    obtain r w1 where t: "transformEntity cfg tbl ent (clientName cfg) client w = (r, w1)"
      by (cases "transformEntity cfg tbl ent (clientName cfg) client w")
    with Cons.prems False obtain transformed where r: "r = Inr transformed"
      by (cases r) (auto simp: andThen_def)
    obtain r2 w2 where s: "emit_remote_send_change cfg tbl i transformed client w1 = (r2, w2)"
      by (cases "emit_remote_send_change cfg tbl i transformed client w1")
    from Cons.prems False t r s
    have rest: "onLocalChangeLoop cfg clients tbl i ent except w2 = (Inr (), w')"
      by (cases r2) (simp_all add: andThen_def)
    from transformEntity_keeps [of cfg tbl ent "clientName cfg" client w] t
    have k1: "trace w1 = trace w" "db w1 = db w" by auto
    obtain ps where ps:
      "trace w2 = trace w1 @ Emit (RemoteSendChange tbl i transformed client) # ps"
      "list_all isPublish ps"
      using emit_remote_send_change_trace [of cfg tbl i transformed client w1] s by auto
    from Cons.IH [OF rest] obtain es where es: "trace w' = trace w2 @ es"
      "List.map_filter sendTarget es
            = map (\<lambda>c. (tbl, i, c)) (filter (\<lambda>c. Some c \<noteq> except) clients)"
      "list_all (\<lambda>e. \<not> isQuery e) es"
      "db w' = db w2" by blast
    let ?es = "Emit (RemoteSendChange tbl i transformed client) # ps @ es"
    have "trace w' = trace w @ ?es" using es(1) ps(1) k1 by simp
    moreover have "List.map_filter sendTarget ?es
            = map (\<lambda>c. (tbl, i, c)) (filter (\<lambda>c. Some c \<noteq> except) (client # clients))"
      using False es(2) map_filter_isPublish [OF ps(2)]
      by (simp add: map_filter_append)
    moreover have "list_all (\<lambda>e. \<not> isQuery e) ?es"
      using not_query_isPublish [OF ps(2)] es(3) by simp
    moreover have "db w' = db w"
      using es(4) k1 emit_remote_send_change_db [of cfg tbl i transformed client w1] s
      by simp
    ultimately show ?thesis by blast
  qed
qed

lemma echo_bidirectional:
  assumes "connected (db w)" and "table data \<in> set (bidirectionalTable cfg)"
    and "echo cfg data w = (Inr (), w')"
  shows "\<exists>post. trace w' = trace w @
            [Query (DeleteTableChanges (table data) (id' data)),
             Emit (LocalChange (table data) (id' data) (entity data) (Some (sender data)))] @ post
        \<and> List.map_filter sendTarget post
            = map (\<lambda>c. (table data, id' data, c))
                  (filter (\<lambda>c. c \<noteq> sender data) (remoteClients cfg))
        \<and> list_all (\<lambda>e. \<not> isQuery e) post
        \<and> table_changes (db w')
            = filter (\<lambda>row. \<not> (table_name row = table data \<and> Some (primary_key row) = id' data))
                     (table_changes (db w))"
proof -
  let ?w4 = "w\<lparr>db := (db w)\<lparr>table_changes :=
               filter (\<lambda>row. \<not> (table_name row = table data \<and> Some (primary_key row) = id' data))
                      (table_changes (db w))\<rparr>,
               trace := trace w @ [Query (DeleteTableChanges (table data) (id' data))]\<rparr>"
  let ?w5 = "emitted (LocalChange (table data) (id' data) (entity data) (Some (sender data))) ?w4"
  from assms have "onLocalChangeLoop cfg (remoteClients cfg) (table data) (id' data) (entity data)
                     (Some (sender data)) ?w5 = (Inr (), w')"
    by (simp add: echo_def andThen_def query_def emit_local_change_def onLocalChange_def)
  from onLocalChangeLoop_fanout [OF this] show ?thesis
    by (auto simp: emitted_def)
qed

lemma saveEntity_applied:
  assumes "connected (db w)"
    and "getPrimaryKey (table data) w = (Inr primaryKey, w1)"
    and "\<forall>e. entity data = Some e \<longrightarrow> map_of e primaryKey = map_option JStr (id' data)"
    and "saveEntity cfg data w = (Inr (), w')"
  shows "\<exists>w3 pre. trace w3 = trace w @ pre \<and> list_all isQuery pre \<and> connected (db w3)
                 \<and> echo cfg data w3 = (Inr (), w')"
proof -
  from getPrimaryKey_result [OF assms(2)] assms(1) obtain q1 where
    w1: "connected (db w1)" "trace w1 = trace w @ q1" "list_all isQuery q1" by auto
  show ?thesis
  proof (cases "entity data")
    case None
    obtain r3 w3 where q: "query (DeleteRow (table data) primaryKey (id' data)) w1 = (r3, w3)"
      by (cases "query (DeleteRow (table data) primaryKey (id' data)) w1")
    with assms(2,4) None obtain x where e: "r3 = Inr x" "echo cfg data w3 = (Inr (), w')"
      by (cases r3) (auto simp: saveEntity_def andThen_def)
    from query_result [OF q] w1 obtain q3 where
      "connected (db w3)" "trace w3 = trace w @ (q1 @ q3)" "list_all isQuery (q1 @ q3)"
      by auto
    with e(2) show ?thesis by blast
  next
    case (Some e)
    with assms(3) have m: "map_of e primaryKey = map_option JStr (id' data)" by simp
    obtain r2 w2 where c: "query (CountRows (table data) primaryKey (id' data)) w1 = (r2, w2)"
      by (cases "query (CountRows (table data) primaryKey (id' data)) w1")
    with assms(2,4) Some m obtain countResult where r2: "r2 = Inr countResult"
      by (cases r2) (auto simp: saveEntity_def andThen_def)
    from query_result [OF c] w1 obtain q2 where
      w2: "connected (db w2)" "trace w2 = trace w @ q1 @ q2" "list_all isQuery q2" by auto
    let ?st = "if countOf countResult = 0 then InsertRow (table data) e
               else UpdateRow (table data) e primaryKey (id' data)"
    obtain r3 w3 where q: "query ?st w2 = (r3, w3)"
      by (cases "query ?st w2")
    with assms(2,4) Some m c r2 obtain x where e: "r3 = Inr x" "echo cfg data w3 = (Inr (), w')"
      by (cases r3) (auto simp: saveEntity_def andThen_def split: if_splits)
    from query_result [OF q] w1 w2 obtain q3 where
      "connected (db w3)" "trace w3 = trace w @ (q1 @ q2 @ q3)"
      "list_all isQuery (q1 @ q2 @ q3)"
      by auto
    with e(2) show ?thesis by blast
  qed
qed

text \<open>
  C1. The bidirectional tables are the receive tables that are sync tables. For every
  change applied by \<open>saveEntity\<close> while the database is connected (the primary key was
  resolved, the id is the id of the entity, if there is one, and the method returned
  normally) whose table is bidirectional: the effects of the method are some statements,
  then the statement deleting the \<open>table_changes\<close> rows of \<open>(table, id)\<close>, immediately
  followed by the emission of \<open>local-change\<close> with the sender of the change as \<open>except\<close>,
  and after it no statement and, in the order of \<open>remoteClients\<close>, one emitted
  \<open>remote-send-change\<close> with that table and id for every configured client other than the
  sender, and for no one else. In the database left behind no \<open>table_changes\<close> row
  matches \<open>(table, id)\<close>.
\<close>

theorem C1_bidirectional_echo:
  assumes "connected (db w)"
    and "table data \<in> set (bidirectionalTable cfg)"
    and "fst (getPrimaryKey (table data) w) = Inr primaryKey"
    and "\<forall>e. entity data = Some e \<longrightarrow> map_of e primaryKey = map_option JStr (id' data)"
    and "saveEntity cfg data w = (Inr (), w')"
  shows "set (bidirectionalTable cfg) = set (syncTables cfg) \<inter> set (receiveTables cfg)
       \<and> (\<exists>pre post.
            trace w' = trace w @ pre @
              [Query (DeleteTableChanges (table data) (id' data)),
               Emit (LocalChange (table data) (id' data) (entity data) (Some (sender data)))]
              @ post
          \<and> list_all isQuery pre
          \<and> list_all (\<lambda>e. \<not> isQuery e) post
          \<and> List.map_filter sendTarget post
              = map (\<lambda>c. (table data, id' data, c))
                    (filter (\<lambda>c. c \<noteq> sender data) (remoteClients cfg)))
       \<and> filter (\<lambda>row. table_name row = table data \<and> Some (primary_key row) = id' data)
            (table_changes (db w')) = []"
proof -
  obtain w1 where g: "getPrimaryKey (table data) w = (Inr primaryKey, w1)"
    using assms(3) by (cases "getPrimaryKey (table data) w") auto
  from saveEntity_applied [OF assms(1) g assms(4,5)] obtain w3 pre where
    w3: "trace w3 = trace w @ pre" "list_all isQuery pre" "connected (db w3)"
        "echo cfg data w3 = (Inr (), w')" by blast
  from echo_bidirectional [OF w3(3) assms(2) w3(4)] obtain post where
    post: "trace w' = trace w3 @
            [Query (DeleteTableChanges (table data) (id' data)),
             Emit (LocalChange (table data) (id' data) (entity data) (Some (sender data)))] @ post"
      "List.map_filter sendTarget post
            = map (\<lambda>c. (table data, id' data, c))
                  (filter (\<lambda>c. c \<noteq> sender data) (remoteClients cfg))"
      "list_all (\<lambda>e. \<not> isQuery e) post"
      "table_changes (db w')
            = filter (\<lambda>row. \<not> (table_name row = table data \<and> Some (primary_key row) = id' data))
                     (table_changes (db w3))" by blast
  have b: "set (bidirectionalTable cfg) = set (syncTables cfg) \<inter> set (receiveTables cfg)"
    by (auto simp: bidirectionalTable_def)
  have t: "trace w' = trace w @ pre @
              [Query (DeleteTableChanges (table data) (id' data)),
               Emit (LocalChange (table data) (id' data) (entity data) (Some (sender data)))]
              @ post"
    using post(1) w3(1) by simp
  have d: "filter (\<lambda>row. table_name row = table data \<and> Some (primary_key row) = id' data)
            (table_changes (db w')) = []"
    unfolding post(4) by (simp add: filter_empty_conv)
  from b t w3(2) post(2,3) d show ?thesis by blast
qed

theorem C1_bidirectional_echo_witness:
  "connected (db exampleWorld)
   \<and> table matchingChange \<in> set (bidirectionalTable exampleConfig)
   \<and> fst (getPrimaryKey (table matchingChange) exampleWorld) = Inr ''id''
   \<and> fst (saveEntity exampleConfig matchingChange exampleWorld) = Inr ()
   \<and> (\<exists>pre post.
        trace (snd (saveEntity exampleConfig matchingChange exampleWorld)) = pre @
          [Query (DeleteTableChanges ''users'' (Some ''u1'')),
           Emit (LocalChange ''users'' (Some ''u1'')
                  (Some [(''id'', JStr ''u1''), (''name'', JStr ''x'')]) (Some ''nodeB''))]
          @ post
      \<and> list_all isQuery pre
      \<and> list_all (\<lambda>e. \<not> isQuery e) post
      \<and> List.map_filter sendTarget post = [(''users'', Some ''u1'', ''nodeC'')])
   \<and> table_changes (db exampleWorld) \<noteq> []
   \<and> filter (\<lambda>row. table_name row = ''users'' \<and> Some (primary_key row) = Some ''u1'')
        (table_changes (db (snd (saveEntity exampleConfig matchingChange exampleWorld)))) = []"
proof -
  have h1: "connected (db exampleWorld)"
    by (simp add: example_defs)
  have h2: "table matchingChange \<in> set (bidirectionalTable exampleConfig)"
    by (simp add: matchingChange_def bidirectionalTable_def exampleConfig_def)
  have h3: "fst (getPrimaryKey (table matchingChange) exampleWorld) = Inr ''id''"
    by (simp add: matchingChange_def example_defs handler_defs)
  have h4: "\<forall>e. entity matchingChange = Some e
              \<longrightarrow> map_of e ''id'' = map_option JStr (id' matchingChange)"
    by (simp add: matchingChange_def)
  have h5: "fst (saveEntity exampleConfig matchingChange exampleWorld) = Inr ()"
    by (simp add: matchingChange_def example_defs handler_defs)
  then have h6: "saveEntity exampleConfig matchingChange exampleWorld
                  = (Inr (), snd (saveEntity exampleConfig matchingChange exampleWorld))"
    by (metis prod.collapse)
  have e: "table matchingChange = ''users''" "id' matchingChange = Some ''u1''"
    "entity matchingChange = Some [(''id'', JStr ''u1''), (''name'', JStr ''x'')]"
    "sender matchingChange = ''nodeB''" "remoteClients exampleConfig = [''nodeB'', ''nodeC'']"
    "trace exampleWorld = []" "table_changes (db exampleWorld) \<noteq> []"
    by (simp_all add: matchingChange_def example_defs)
  from C1_bidirectional_echo [OF h1 h2 h3 h4 h6] h1 h2 h3 h5 e show ?thesis
    by simp
qed

section \<open>Handlers that return normally\<close>


















section \<open>An incoming change passes the transformer once\<close>



section \<open>Dates before the schemas were loaded\<close>








end
